theory Spec2Isabelle
  imports Main "HOL-Library.Word"
begin

unbundle bit_operations_syntax

section \<open>The connection object of nassl (src/nassl/\_nassl/nassl\_SSL.c)\<close>

text \<open>
  The file wraps one engine-native TLS state (an OpenSSL \<open>SSL*\<close>) in a Python object.
  Every method of the object is modelled as a function on the C struct of the object,
  on the values the engine reports for \<open>self->ssl\<close>, and on a store that holds what the
  methods share with their caller: the Python BIO and SSL\_CTX objects (reached through
  pointers, with reference counts), the native certificates (reference counted by the
  engine), the outcomes of the fallible allocations still to come, and the log of the
  releasing calls made so far.

  A C pointer is an \<open>addr option\<close>, \<open>None\<close> being \<open>NULL\<close>. A Python exception and a
  crash of the process are values of the type \<open>error\<close>; a method returns its result (or
  its error) together with the objects it has changed.
\<close>

subsection \<open>Values, errors and native data\<close>

type_synonym addr = nat
type_synonym byte = "8 word"

datatype error =
    ValueError string      \<comment> \<open>\<open>PyErr_SetString(PyExc_ValueError, msg)\<close>, or raised by argument parsing\<close>
  | TypeError              \<comment> \<open>raised by \<open>PyArg_ParseTuple\<close> on an argument of the wrong type or count\<close>
  | UnicodeEncodeError     \<comment> \<open>raised by the UTF-8 encoder on a surrogate; in Python a kind of \<open>ValueError\<close>\<close>
  | MemoryError            \<comment> \<open>\<open>PyErr_NoMemory()\<close>, or a failed Python allocation returned as is\<close>
  | OpenSSLError           \<comment> \<open>\<open>raise_OpenSSL_error()\<close>: the diagnostic of the engine's error queue\<close>
  | Fault string           \<comment> \<open>no exception: the C code dereferences an invalid pointer\<close>

text \<open>A parsed OCSP response: its status and the bytes of the response proper.\<close>

datatype OCSP_RESPONSE = OCSP_RESPONSE (responseStatus: nat) (responseBytes: "byte list")

text \<open>
  The Python values the methods take and return. \<open>X509_Object a\<close> is an \<open>_nassl.X509\<close>
  object whose field \<open>x509\<close> is the native certificate at \<open>a\<close>;
  \<open>OCSP_RESPONSE_Object r chain\<close> an \<open>_nassl.OCSP_RESPONSE\<close> with its fields \<open>ocspResp\<close>
  and \<open>peerCertChain\<close> (a native stack, whose entries may be \<open>NULL\<close>);
  \<open>BIO_Object p\<close> and \<open>SSL_CTX_Object p\<close> are the Python objects stored at \<open>p\<close>.

  A \<open>str\<close> is given in one of two ways. \<open>PyUnicode utf8\<close> is the \<open>str\<close> whose UTF-8
  encoding is the byte string \<open>utf8\<close>; this is how \<open>PyUnicode_FromString\<close> builds a
  \<open>str\<close> from a C string. \<open>PyUnicode_UCS4 points\<close> is the \<open>str\<close> with the given code
  points (each at most \<open>0x10FFFF\<close>); a \<open>str\<close> that holds a surrogate (\<open>U+D800\<close> to
  \<open>U+DFFF\<close>) has no UTF-8 encoding and can only be given this way.
\<close>

datatype PyObject =
    Py_None
  | PyLong int
  | PyUnicode string
  | PyUnicode_UCS4 "nat list"
  | PyList "PyObject list"
  | X509_Object addr
  | OCSP_RESPONSE_Object OCSP_RESPONSE "addr option list"
  | BIO_Object addr
  | SSL_CTX_Object addr

text \<open>A native certificate: its encoding and the engine's reference count for it.\<close>

record X509 =
  der :: "byte list"
  references :: nat

text \<open>A distinguished name, as its attributes in order; \<open>X509_NAME_oneline\<close> renders it.\<close>

type_synonym X509_NAME = "(string \<times> string) list"

fun X509_NAME_oneline :: "X509_NAME \<Rightarrow> string" where
  "X509_NAME_oneline [] = []"
| "X509_NAME_oneline ((k, v) # rest) = ''/'' @ k @ ''='' @ v @ X509_NAME_oneline rest"

text \<open>
  An entry of the engine's cipher table. \<open>cipher_name\<close> is the C string \<open>c->name\<close>
  (the source tests it against \<open>NULL\<close> in one place), \<open>cipher_id\<close> the 32-bit \<open>c->id\<close>.
\<close>

record SSL_CIPHER =
  cipher_name :: "string option"
  strength_bits :: "32 word"
  cipher_id :: "32 word"
  cipher_description :: string

record ssl3_state =
  tmp_new_cipher :: "SSL_CIPHER option"

text \<open>
  What the engine holds for one \<open>SSL*\<close>, as far as the methods below read or write it:
  the two directions of the internal BIO, the verification mode, the peer's certificate
  and chain (pointers into the certificate store; the chain pointer itself may be
  \<open>NULL\<close>), the stack of configured ciphers (\<open>SSL_get_ciphers\<close>, may be \<open>NULL\<close>), the
  SSLv3/TLS handshake state \<open>s->s3\<close> with the cipher chosen but not yet committed, the
  committed cipher (\<open>SSL_get_current_cipher\<close>), the stack of client CA names and the
  stapled OCSP bytes.
\<close>

record SSL =
  rbio :: "addr option"
  wbio :: "addr option"
  verify_mode :: "32 word"
  peer :: "addr option"
  peer_chain :: "addr list option"
  ciphers :: "SSL_CIPHER list option"
  s3 :: "ssl3_state option"
  current_cipher :: "SSL_CIPHER option"
  client_CA :: "X509_NAME list option"
  tlsext_ocsp_resp :: "byte list option"

text \<open>The Python objects of the sibling modules, as their C structs.\<close>

record nassl_BIO_Object =
  bio :: "addr option"
  bio_refcnt :: nat

record nassl_SSL_CTX_Object =
  sslCtx :: "SSL option"     \<comment> \<open>what \<open>SSL_new\<close> yields for this context; \<open>None\<close> when it fails\<close>
  ctx_refcnt :: nat

text \<open>The struct of the connection object itself (\<open>nassl_SSL_Object\<close>).\<close>

record nassl_SSL_Object =
  ssl :: "SSL option"
  sslCtx_Object :: "addr option"
  networkBio_Object :: "addr option"

subsection \<open>The store\<close>

text \<open>
  The releasing calls made for the connection object, by its methods and by the engine
  functions they call, in the order they are made.
\<close>

datatype release =
    BIO_vfree addr                          \<comment> \<open>\<open>BIO_vfree(bio)\<close> on a native BIO\<close>
  | BIO_free_all addr                       \<comment> \<open>\<open>BIO_free_all(bio)\<close>, by the engine, on a BIO it replaces\<close>
  | SSL_free "addr option" "addr option"    \<comment> \<open>\<open>SSL_free(ssl)\<close>; the engine frees the internal BIOs with it\<close>
  | Py_DECREF_BIO addr                      \<comment> \<open>\<open>Py_DECREF\<close> on a Python BIO object\<close>
  | Py_DECREF_CTX addr                      \<comment> \<open>\<open>Py_DECREF\<close> on a Python SSL\_CTX object\<close>
  | Tp_free                                 \<comment> \<open>\<open>tp_free(self)\<close>\<close>

record world =
  x509_store :: "addr \<rightharpoonup> X509"
  next_addr :: addr
  bio_objects :: "addr \<rightharpoonup> nassl_BIO_Object"
  ctx_objects :: "addr \<rightharpoonup> nassl_SSL_CTX_Object"
  alloc_outcomes :: "bool list"
  released :: "release list"

text \<open>
  A fallible allocation (\<open>tp_alloc\<close>, \<open>PyList_New\<close>, \<open>PyUnicode_FromString\<close>,
  \<open>X509_dup\<close>, ...) consumes the next scheduled outcome; once the schedule is used up
  every allocation succeeds.
\<close>

definition allocate :: "world \<Rightarrow> bool \<times> world" where
  "allocate w =
     (case alloc_outcomes w of
        [] \<Rightarrow> (True, w)
      | ok # rest \<Rightarrow> (ok, w\<lparr>alloc_outcomes := rest\<rparr>))"

definition PyUnicode_FromString :: "string \<Rightarrow> world \<Rightarrow> PyObject option \<times> world" where
  "PyUnicode_FromString str w =
     (case allocate w of
        (False, w') \<Rightarrow> (None, w')
      | (True, w') \<Rightarrow> (Some (PyUnicode str), w'))"

text \<open>
  \<open>Py_BuildValue("I", v)\<close> and \<open>Py_BuildValue("H", v)\<close>: a Python integer with the
  unsigned value of \<open>v\<close>, or \<open>NULL\<close> with a \<open>MemoryError\<close> set.
\<close>

definition Py_BuildValue_I :: "32 word \<Rightarrow> world \<Rightarrow> (error + PyObject) \<times> world" where
  "Py_BuildValue_I v w =
     (case allocate w of
        (False, w') \<Rightarrow> (Inl MemoryError, w')
      | (True, w') \<Rightarrow> (Inr (PyLong (uint v)), w'))"

definition Py_BuildValue_H :: "16 word \<Rightarrow> world \<Rightarrow> (error + PyObject) \<times> world" where
  "Py_BuildValue_H v w =
     (case allocate w of
        (False, w') \<Rightarrow> (Inl MemoryError, w')
      | (True, w') \<Rightarrow> (Inr (PyLong (uint v)), w'))"

subsection \<open>Argument parsing\<close>

text \<open>
  \<open>PyArg_ParseTuple(args, "I", &v)\<close> takes exactly one Python integer and stores it as
  a C \<open>unsigned int\<close> without overflow checking: the integer is reduced modulo \<open>2^32\<close>.
\<close>

fun PyArg_ParseTuple_I :: "PyObject list \<Rightarrow> error + 32 word" where
  "PyArg_ParseTuple_I [PyLong n] = Inr (word_of_int n)"
| "PyArg_ParseTuple_I _ = Inl TypeError"

text \<open>
  The UTF-8 encoder of CPython on one code point that is not a surrogate: one to four
  bytes, by the size of the code point.
\<close>

definition Py_UNICODE_IS_SURROGATE :: "nat \<Rightarrow> bool" where
  "Py_UNICODE_IS_SURROGATE ch = (0xD800 \<le> ch \<and> ch \<le> 0xDFFF)"

definition utf8_encoder :: "nat \<Rightarrow> string" where
  "utf8_encoder ch =
     (if ch < 0x80 then [char_of ch]
      else if ch < 0x0800 then [char_of (0xC0 + ch div 64), char_of (0x80 + ch mod 64)]
      else if ch < 0x10000
      then [char_of (0xE0 + ch div 4096), char_of (0x80 + (ch div 64) mod 64),
            char_of (0x80 + ch mod 64)]
      else [char_of (0xF0 + ch div 262144), char_of (0x80 + (ch div 4096) mod 64),
            char_of (0x80 + (ch div 64) mod 64), char_of (0x80 + ch mod 64)])"

text \<open>
  \<open>PyUnicode_Check(arg)\<close>, and \<open>PyUnicode_AsUTF8AndSize(arg, &len)\<close>: the UTF-8 bytes of
  a \<open>str\<close>. The encoder is strict: on a surrogate the call fails with a
  \<open>UnicodeEncodeError\<close>. The buffer of the encoding belongs to the interpreter; its
  allocation is not one of the scheduled allocations of the store.
\<close>

fun PyUnicode_Check :: "PyObject \<Rightarrow> bool" where
  "PyUnicode_Check (PyUnicode utf8) = True"
| "PyUnicode_Check (PyUnicode_UCS4 points) = True"
| "PyUnicode_Check _ = False"

fun PyUnicode_AsUTF8AndSize :: "PyObject \<Rightarrow> error + string" where
  "PyUnicode_AsUTF8AndSize (PyUnicode utf8) = Inr utf8"
| "PyUnicode_AsUTF8AndSize (PyUnicode_UCS4 points) =
     (if list_ex Py_UNICODE_IS_SURROGATE points then Inl UnicodeEncodeError
      else Inr (concat (map utf8_encoder points)))"
| "PyUnicode_AsUTF8AndSize _ = Inl TypeError"

text \<open>
  Format \<open>"s"\<close> takes exactly one \<open>str\<close> and yields its UTF-8 bytes as a C string. It
  fails with the error of the encoder when the \<open>str\<close> cannot be encoded, and with a
  \<open>ValueError\<close> when the encoding holds a null byte (\<open>strlen(sarg) != len\<close>), in this
  order.
\<close>

fun PyArg_ParseTuple_s :: "PyObject list \<Rightarrow> error + string" where
  "PyArg_ParseTuple_s [arg] =
     (if PyUnicode_Check arg
      then (case PyUnicode_AsUTF8AndSize arg of
              Inl e \<Rightarrow> Inl e
            | Inr sarg \<Rightarrow>
                if CHR 0x00 \<in> set sarg then Inl (ValueError ''embedded null character'')
                else Inr sarg)
      else Inl TypeError)"
| "PyArg_ParseTuple_s _ = Inl TypeError"

subsection \<open>set\_verify\<close>

definition SSL_VERIFY_NONE :: "32 word" where "SSL_VERIFY_NONE = 0x00"
definition SSL_VERIFY_PEER :: "32 word" where "SSL_VERIFY_PEER = 0x01"
definition SSL_VERIFY_FAIL_IF_NO_PEER_CERT :: "32 word" where "SSL_VERIFY_FAIL_IF_NO_PEER_CERT = 0x02"
definition SSL_VERIFY_CLIENT_ONCE :: "32 word" where "SSL_VERIFY_CLIENT_ONCE = 0x04"

text \<open>The engine's \<open>SSL_set_verify(s, mode, NULL)\<close>: the mode is stored.\<close>

definition SSL_set_verify :: "SSL \<Rightarrow> 32 word \<Rightarrow> SSL" where
  "SSL_set_verify s mode = s\<lparr>verify_mode := mode\<rparr>"

definition nassl_SSL_set_verify ::
  "nassl_SSL_Object \<Rightarrow> PyObject list \<Rightarrow> (error + PyObject) \<times> nassl_SSL_Object" where
  "nassl_SSL_set_verify self args =
     (case PyArg_ParseTuple_I args of
        Inl e \<Rightarrow> (Inl e, self)
      | Inr verifyMode \<Rightarrow>
          if verifyMode = SSL_VERIFY_NONE \<or> verifyMode = SSL_VERIFY_PEER
             \<or> verifyMode = SSL_VERIFY_FAIL_IF_NO_PEER_CERT \<or> verifyMode = SSL_VERIFY_CLIENT_ONCE
          then (case ssl self of
                  None \<Rightarrow> (Inl (Fault ''SSL_set_verify(NULL)''), self)
                | Some s \<Rightarrow> (Inr Py_None, self\<lparr>ssl := Some (SSL_set_verify s verifyMode)\<rparr>))
          else (Inl (ValueError ''Invalid value for verification mode''), self))"

subsection \<open>The engine's stacks and cipher accessors\<close>

text \<open>
  \<open>sk_num\<close> of a \<open>NULL\<close> stack is \<open>-1\<close>; \<open>sk_value\<close> outside the stack is \<open>NULL\<close>;
  \<open>sk_pop\<close> removes and returns the last entry, \<open>NULL\<close> when there is none.
\<close>

definition sk_num :: "'a list option \<Rightarrow> int" where
  "sk_num sk = (case sk of None \<Rightarrow> - 1 | Some entries \<Rightarrow> int (length entries))"

definition sk_value :: "'a list option \<Rightarrow> nat \<Rightarrow> 'a option" where
  "sk_value sk i =
     (case sk of
        None \<Rightarrow> None
      | Some entries \<Rightarrow> if i < length entries then Some (entries ! i) else None)"

definition sk_pop :: "'a list option \<Rightarrow> 'a option \<times> 'a list option" where
  "sk_pop sk =
     (case sk of
        None \<Rightarrow> (None, None)
      | Some entries \<Rightarrow>
          if entries = [] then (None, Some [])
          else (Some (last entries), Some (butlast entries)))"

definition SSL_get_ciphers :: "SSL \<Rightarrow> SSL_CIPHER list option" where
  "SSL_get_ciphers s = ciphers s"

definition SSL_get_current_cipher :: "SSL \<Rightarrow> SSL_CIPHER option" where
  "SSL_get_current_cipher s = current_cipher s"

text \<open>\<open>SSL_CIPHER_get_name(c)\<close> is \<open>"(NONE)"\<close> for \<open>c = NULL\<close> and \<open>c->name\<close> otherwise.\<close>

definition SSL_CIPHER_get_name :: "SSL_CIPHER option \<Rightarrow> string option" where
  "SSL_CIPHER_get_name c = (case c of None \<Rightarrow> Some ''(NONE)'' | Some ci \<Rightarrow> cipher_name ci)"

definition SSL_get_cipher_name :: "SSL \<Rightarrow> string option" where
  "SSL_get_cipher_name s = SSL_CIPHER_get_name (SSL_get_current_cipher s)"

text \<open>\<open>SSL_CIPHER_get_bits(c, NULL)\<close> is \<open>0\<close> for \<open>c = NULL\<close>.\<close>

definition SSL_CIPHER_get_bits :: "SSL_CIPHER option \<Rightarrow> 32 word" where
  "SSL_CIPHER_get_bits c = (case c of None \<Rightarrow> 0 | Some ci \<Rightarrow> strength_bits ci)"

definition SSL_get_cipher_bits :: "SSL \<Rightarrow> 32 word" where
  "SSL_get_cipher_bits s = SSL_CIPHER_get_bits (SSL_get_current_cipher s)"

definition SSL_CIPHER_description :: "SSL_CIPHER \<Rightarrow> string" where
  "SSL_CIPHER_description c = cipher_description c"

text \<open>
  \<open>SSL_get_cipher_list(s, n)\<close>: the name of the cipher at priority \<open>n\<close> of the configured
  stack, \<open>NULL\<close> when the stack is \<open>NULL\<close> or has no entry \<open>n\<close>.
\<close>

definition SSL_get_cipher_list :: "SSL \<Rightarrow> nat \<Rightarrow> string option" where
  "SSL_get_cipher_list s n =
     (case SSL_get_ciphers s of
        None \<Rightarrow> None
      | Some sk \<Rightarrow> if length sk \<le> n then None else cipher_name (sk ! n))"

definition PyList_Append :: "PyObject list \<Rightarrow> PyObject \<Rightarrow> world \<Rightarrow> PyObject list option \<times> world" where
  "PyList_Append lst item w =
     (case allocate w of
        (False, w') \<Rightarrow> (None, w')
      | (True, w') \<Rightarrow> (Some (lst @ [item]), w'))"

subsection \<open>get\_cipher\_list\<close>

text \<open>
  The \<open>do ... while\<close> loop of the method: the body reads the name at \<open>priority\<close> and
  appends it, the condition reads the name at the next priority. A stack holds fewer
  than \<open>2^31\<close> entries, so \<open>priority\<close> never wraps before the engine answers \<open>NULL\<close>.
\<close>

function get_cipher_list_loop ::
  "SSL \<Rightarrow> nat \<Rightarrow> PyObject list \<Rightarrow> world \<Rightarrow> (error + PyObject) \<times> world" where
  "get_cipher_list_loop s priority ciphersPyList w =
     (case SSL_get_cipher_list s priority of
        None \<Rightarrow> (Inl (Fault ''PyUnicode_FromString(NULL)''), w)
      | Some cipherName \<Rightarrow>
          (case PyUnicode_FromString cipherName w of
             (None, w1) \<Rightarrow> (Inl MemoryError, w1)
           | (Some cipherPyString, w1) \<Rightarrow>
               (case PyList_Append ciphersPyList cipherPyString w1 of
                  (None, w2) \<Rightarrow> (Inl MemoryError, w2)
                | (Some lst, w2) \<Rightarrow>
                    if SSL_get_cipher_list s (priority + 1) \<noteq> None
                    then get_cipher_list_loop s (priority + 1) lst w2
                    else (Inr (PyList lst), w2))))"
  by pat_completeness auto
termination
  by (relation "measure (\<lambda>(s, priority, lst, w).
        (case SSL_get_ciphers s of None \<Rightarrow> 0 | Some sk \<Rightarrow> length sk) - priority)")
     (auto simp: SSL_get_cipher_list_def split: option.splits if_splits)

definition nassl_SSL_get_cipher_list ::
  "nassl_SSL_Object \<Rightarrow> world \<Rightarrow> (error + PyObject) \<times> world" where
  "nassl_SSL_get_cipher_list self w =
     (case ssl self of
        None \<Rightarrow> (Inl (Fault ''self->ssl is NULL''), w)
      | Some s \<Rightarrow>
          if SSL_get_cipher_list s 0 = None then (Inr Py_None, w)
          else (case allocate w of
                  (False, w1) \<Rightarrow> (Inl MemoryError, w1)
                | (True, w1) \<Rightarrow> get_cipher_list_loop s 0 [] w1))"

subsection \<open>get\_cipher\_description\<close>

text \<open>
  The \<open>for\<close> loop of the method, with its two-part condition. \<open>strcmp(a, b) == 0\<close> on
  two C strings is equality of the strings.
\<close>

function find_cipher_loop ::
  "SSL_CIPHER list option \<Rightarrow> string \<Rightarrow> nat \<Rightarrow> SSL_CIPHER option \<Rightarrow> SSL_CIPHER option" where
  "find_cipher_loop sk wantedCipherName i found_cipher =
     (if found_cipher = None \<and> int i < sk_num sk
      then (let c = sk_value sk i;
                thisCipherName = SSL_CIPHER_get_name c
            in find_cipher_loop sk wantedCipherName (i + 1)
                 (if thisCipherName \<noteq> None \<and> thisCipherName = Some wantedCipherName
                  then c else found_cipher))
      else found_cipher)"
  by pat_completeness auto
termination
  by (relation "measure (\<lambda>(sk, wanted, i, found). nat (sk_num sk) - i)") auto

definition nassl_SSL_get_cipher_description ::
  "nassl_SSL_Object \<Rightarrow> PyObject list \<Rightarrow> world \<Rightarrow> (error + PyObject) \<times> world" where
  "nassl_SSL_get_cipher_description self args w =
     (case PyArg_ParseTuple_s args of
        Inl e \<Rightarrow> (Inl e, w)
      | Inr wantedCipherName \<Rightarrow>
          (case ssl self of
             None \<Rightarrow> (Inl (Fault ''self->ssl is NULL''), w)
           | Some s \<Rightarrow>
               (case find_cipher_loop (SSL_get_ciphers s) wantedCipherName 0 None of
                  None \<Rightarrow> (Inr Py_None, w)
                | Some found_cipher \<Rightarrow>
                    (case PyUnicode_FromString (SSL_CIPHER_description found_cipher) w of
                       (None, w1) \<Rightarrow> (Inl MemoryError, w1)
                     | (Some desc, w1) \<Rightarrow> (Inr desc, w1)))))"

subsection \<open>The cipher of the connection\<close>

text \<open>
  \<open>get_tmp_new_cipher\<close> is compiled in two ways: with \<open>LEGACY_OPENSSL\<close> it reads the
  private field \<open>s3->tmp.new_cipher\<close>, without it the function is \<open>return NULL\<close>.
\<close>

definition get_tmp_new_cipher :: "bool \<Rightarrow> nassl_SSL_Object \<Rightarrow> SSL_CIPHER option" where
  "get_tmp_new_cipher LEGACY_OPENSSL self =
     (if LEGACY_OPENSSL
      then (case ssl self of
              None \<Rightarrow> None
            | Some s \<Rightarrow> (case s3 s of None \<Rightarrow> None | Some st \<Rightarrow> tmp_new_cipher st))
      else None)"

definition nassl_SSL_get_cipher_bits ::
  "bool \<Rightarrow> nassl_SSL_Object \<Rightarrow> world \<Rightarrow> (error + PyObject) \<times> world" where
  "nassl_SSL_get_cipher_bits LEGACY_OPENSSL self w =
     (case get_tmp_new_cipher LEGACY_OPENSSL self of
        Some cipher \<Rightarrow> Py_BuildValue_I (SSL_CIPHER_get_bits (Some cipher)) w
      | None \<Rightarrow>
          (case ssl self of
             None \<Rightarrow> (Inl (Fault ''self->ssl is NULL''), w)
           | Some s \<Rightarrow> Py_BuildValue_I (SSL_get_cipher_bits s) w))"

definition nassl_SSL_get_cipher_name ::
  "bool \<Rightarrow> nassl_SSL_Object \<Rightarrow> world \<Rightarrow> (error + PyObject) \<times> world" where
  "nassl_SSL_get_cipher_name LEGACY_OPENSSL self w =
     (case (case get_tmp_new_cipher LEGACY_OPENSSL self of
              Some cipher \<Rightarrow> Inr (SSL_CIPHER_get_name (Some cipher))
            | None \<Rightarrow>
                (case ssl self of
                   None \<Rightarrow> Inl (Fault ''self->ssl is NULL'')
                 | Some s \<Rightarrow> Inr (SSL_get_cipher_name s))) of
        Inl e \<Rightarrow> (Inl e, w)
      | Inr None \<Rightarrow> (Inl (Fault ''strcmp(NULL, ...)''), w)
      | Inr (Some cipherName) \<Rightarrow>
          if cipherName = ''(NONE)'' then (Inr Py_None, w)
          else (case PyUnicode_FromString cipherName w of
                  (None, w1) \<Rightarrow> (Inl MemoryError, w1)
                | (Some name, w1) \<Rightarrow> (Inr name, w1)))"

text \<open>
  Without \<open>LEGACY_OPENSSL\<close> the last statement hands \<open>self->ssl\<close> to
  \<open>SSL_CIPHER_get_protocol_id\<close>, which expects a cipher; the statement is behind the
  test of \<open>cipher\<close>.
\<close>

definition nassl_SSL_get_cipher_protocol_id ::
  "bool \<Rightarrow> nassl_SSL_Object \<Rightarrow> world \<Rightarrow> (error + PyObject) \<times> world" where
  "nassl_SSL_get_cipher_protocol_id LEGACY_OPENSSL self w =
     (case get_tmp_new_cipher LEGACY_OPENSSL self of
        None \<Rightarrow> (Inr Py_None, w)
      | Some cipher \<Rightarrow>
          if LEGACY_OPENSSL
          then Py_BuildValue_H (ucast (cipher_id cipher AND 0x0000FFFF)) w
          else (Inl (Fault ''SSL_CIPHER_get_protocol_id(self->ssl)''), w))"

text \<open>
  The behaviour the specification words for the three queries: the cipher to report is
  the candidate when there is one and the committed cipher otherwise.
\<close>

definition spec_reported_cipher :: "SSL \<Rightarrow> SSL_CIPHER option" where
  "spec_reported_cipher s =
     (case (case s3 s of None \<Rightarrow> None | Some st \<Rightarrow> tmp_new_cipher st) of
        Some candidate \<Rightarrow> Some candidate
      | None \<Rightarrow> current_cipher s)"

subsection \<open>get\_client\_CA\_list\<close>

text \<open>
  \<open>SSL_get_client_CA_list\<close> hands out the engine's own stack, not a copy: what the
  method pops is gone from the engine's state.
\<close>

definition SSL_get_client_CA_list :: "SSL \<Rightarrow> X509_NAME list option" where
  "SSL_get_client_CA_list s = client_CA s"

text \<open>
  The \<open>for\<close> loop of the method, on the number of rounds still to run
  (\<open>x509NamesNum - i\<close>; the bound is read once, before the loop). The buffer of
  \<open>X509_NAME_oneline(name, NULL, 0)\<close> is allocated by the engine and handed to
  \<open>PyUnicode_FromString\<close> unchecked.
\<close>

fun get_client_CA_list_loop ::
  "nat \<Rightarrow> X509_NAME list option \<Rightarrow> PyObject list \<Rightarrow> world
     \<Rightarrow> (error + PyObject) \<times> X509_NAME list option \<times> world" where
  "get_client_CA_list_loop 0 x509Names namesPyList w = (Inr (PyList namesPyList), x509Names, w)"
| "get_client_CA_list_loop (Suc rounds) x509Names namesPyList w =
     (case sk_pop x509Names of
        (None, x509Names') \<Rightarrow>
          (Inl (ValueError
             ''Could not extract an X509_NAME from the client CA list. Should not happen ?''),
           x509Names', w)
      | (Some name, x509Names') \<Rightarrow>
          (case allocate w of
             (False, w0) \<Rightarrow> (Inl (Fault ''PyUnicode_FromString(NULL)''), x509Names', w0)
           | (True, w0) \<Rightarrow>
               (case PyUnicode_FromString (X509_NAME_oneline name) w0 of
                  (None, w1) \<Rightarrow> (Inl MemoryError, x509Names', w1)
                | (Some namePyString, w1) \<Rightarrow>
                    (case PyList_Append namesPyList namePyString w1 of
                       (None, w2) \<Rightarrow> (Inl MemoryError, x509Names', w2)
                     | (Some lst, w2) \<Rightarrow> get_client_CA_list_loop rounds x509Names' lst w2))))"

definition nassl_SSL_get_client_CA_list ::
  "nassl_SSL_Object \<Rightarrow> world \<Rightarrow> (error + PyObject) \<times> nassl_SSL_Object \<times> world" where
  "nassl_SSL_get_client_CA_list self w =
     (case allocate w of
        (False, w1) \<Rightarrow> (Inl MemoryError, self, w1)
      | (True, w1) \<Rightarrow>
          (case ssl self of
             None \<Rightarrow> (Inl (Fault ''self->ssl is NULL''), self, w1)
           | Some s \<Rightarrow>
               (let x509Names = SSL_get_client_CA_list s;
                    x509NamesNum = sk_num x509Names
                in case get_client_CA_list_loop (nat x509NamesNum) x509Names [] w1 of
                     (res, x509Names', w2) \<Rightarrow>
                       (res, self\<lparr>ssl := Some (s\<lparr>client_CA := x509Names'\<rparr>)\<rparr>, w2))))"

subsection \<open>Native certificates\<close>

text \<open>
  The engine counts the references to a certificate. \<open>X509_up_ref\<close> adds one,
  \<open>X509_free\<close> drops one and frees the certificate with the last; \<open>X509_dup\<close> makes a
  new certificate with the same encoding and one reference, or returns \<open>NULL\<close>.
\<close>

definition X509_up_ref :: "addr \<Rightarrow> world \<Rightarrow> world" where
  "X509_up_ref a w =
     (case x509_store w a of
        None \<Rightarrow> w
      | Some c \<Rightarrow> w\<lparr>x509_store := (x509_store w)(a \<mapsto> c\<lparr>references := references c + 1\<rparr>)\<rparr>)"

definition X509_free :: "addr \<Rightarrow> world \<Rightarrow> world" where
  "X509_free a w =
     (case x509_store w a of
        None \<Rightarrow> w
      | Some c \<Rightarrow>
          if references c \<le> 1 then w\<lparr>x509_store := (x509_store w)(a := None)\<rparr>
          else w\<lparr>x509_store := (x509_store w)(a \<mapsto> c\<lparr>references := references c - 1\<rparr>)\<rparr>)"

definition X509_dup :: "addr option \<Rightarrow> world \<Rightarrow> addr option \<times> world" where
  "X509_dup src w =
     (case src of
        None \<Rightarrow> (None, w)
      | Some a \<Rightarrow>
          (case x509_store w a of
             None \<Rightarrow> (None, w)
           | Some c \<Rightarrow>
               (case allocate w of
                  (False, w') \<Rightarrow> (None, w')
                | (True, w') \<Rightarrow>
                    (Some (next_addr w'),
                     w'\<lparr>x509_store := (x509_store w')(next_addr w' \<mapsto> c\<lparr>references := 1\<rparr>),
                        next_addr := next_addr w' + 1\<rparr>))))"

text \<open>
  \<open>SSL_get_peer_certificate\<close> returns the peer's certificate with one more reference,
  which the caller owns; \<open>SSL_get_peer_cert_chain\<close> returns the engine's own stack
  with no reference added.
\<close>

definition SSL_get_peer_certificate :: "SSL \<Rightarrow> world \<Rightarrow> addr option \<times> world" where
  "SSL_get_peer_certificate s w =
     (case peer s of
        None \<Rightarrow> (None, w)
      | Some a \<Rightarrow> (Some a, X509_up_ref a w))"

definition SSL_get_peer_cert_chain :: "SSL \<Rightarrow> addr list option" where
  "SSL_get_peer_cert_chain s = peer_chain s"

subsection \<open>get\_peer\_certificate\<close>

definition nassl_SSL_get_peer_certificate ::
  "nassl_SSL_Object \<Rightarrow> world \<Rightarrow> (error + PyObject) \<times> world" where
  "nassl_SSL_get_peer_certificate self w =
     (case ssl self of
        None \<Rightarrow> (Inl (Fault ''self->ssl is NULL''), w)
      | Some s \<Rightarrow>
          (case SSL_get_peer_certificate s w of
             (None, w1) \<Rightarrow> (Inr Py_None, w1)
           | (Some cert, w1) \<Rightarrow>
               (case allocate w1 of
                  (False, w2) \<Rightarrow> (Inl MemoryError, w2)
                | (True, w2) \<Rightarrow> (Inr (X509_Object cert), w2))))"

subsection \<open>get\_peer\_cert\_chain\<close>

text \<open>
  The \<open>for\<close> loop of the method over the entries \<open>sk_X509_value(certChain, i)\<close> still to
  copy, with the items already set in the Python list.
\<close>

fun get_peer_cert_chain_loop ::
  "addr list \<Rightarrow> PyObject list \<Rightarrow> world \<Rightarrow> (error + PyObject) \<times> world" where
  "get_peer_cert_chain_loop [] certChainPyList w = (Inr (PyList certChainPyList), w)"
| "get_peer_cert_chain_loop (entry # rest) certChainPyList w =
     (case X509_dup (Some entry) w of
        (None, w1) \<Rightarrow>
          (Inl (ValueError ''Could not extract a certificate. Should not happen ?''), w1)
      | (Some cert, w1) \<Rightarrow>
          (case allocate w1 of
             (False, w2) \<Rightarrow> (Inl MemoryError, w2)
           | (True, w2) \<Rightarrow>
               get_peer_cert_chain_loop rest (certChainPyList @ [X509_Object cert]) w2))"

definition nassl_SSL_get_peer_cert_chain ::
  "nassl_SSL_Object \<Rightarrow> world \<Rightarrow> (error + PyObject) \<times> world" where
  "nassl_SSL_get_peer_cert_chain self w =
     (case ssl self of
        None \<Rightarrow> (Inl (Fault ''self->ssl is NULL''), w)
      | Some s \<Rightarrow>
          (case SSL_get_peer_cert_chain s of
             None \<Rightarrow> (Inl (ValueError ''Error getting the peer's certificate chain.''), w)
           | Some certChain \<Rightarrow>
               (case allocate w of
                  (False, w1) \<Rightarrow> (Inl MemoryError, w1)
                | (True, w1) \<Rightarrow> get_peer_cert_chain_loop certChain [] w1)))"

subsection \<open>get\_tlsext\_status\_ocsp\_resp\<close>

text \<open>
  \<open>SSL_get_tlsext_status_ocsp_resp\<close> sets the buffer pointer and returns the length,
  \<open>-1\<close> with a \<open>NULL\<close> buffer when the peer sent no response. The decoder of the
  engine, \<open>d2i_OCSP_RESPONSE\<close>, is a parameter \<open>parse\<close> of the model; it reads \<open>len\<close>
  bytes and allocates its result.
\<close>

definition SSL_get_tlsext_status_ocsp_resp :: "SSL \<Rightarrow> int \<times> byte list option" where
  "SSL_get_tlsext_status_ocsp_resp s =
     (case tlsext_ocsp_resp s of
        None \<Rightarrow> (- 1, None)
      | Some resp \<Rightarrow> (int (length resp), Some resp))"

definition d2i_OCSP_RESPONSE ::
  "(byte list \<Rightarrow> OCSP_RESPONSE option) \<Rightarrow> byte list \<Rightarrow> int \<Rightarrow> world
     \<Rightarrow> OCSP_RESPONSE option \<times> world" where
  "d2i_OCSP_RESPONSE parse buf len w =
     (case parse (take (nat len) buf) of
        None \<Rightarrow> (None, w)
      | Some resp \<Rightarrow>
          (case allocate w of
             (False, w') \<Rightarrow> (None, w')
           | (True, w') \<Rightarrow> (Some resp, w')))"

text \<open>\<open>sk_X509_push\<close> appends the pointer it is given, \<open>NULL\<close> included, unless it cannot grow.\<close>

definition sk_X509_push :: "addr option list \<Rightarrow> addr option \<Rightarrow> world \<Rightarrow> addr option list \<times> world" where
  "sk_X509_push sk item w =
     (case allocate w of
        (False, w') \<Rightarrow> (sk, w')
      | (True, w') \<Rightarrow> (sk @ [item], w'))"

fun copy_chain_loop :: "addr list \<Rightarrow> addr option list \<Rightarrow> world \<Rightarrow> addr option list \<times> world" where
  "copy_chain_loop [] certChainCpy w = (certChainCpy, w)"
| "copy_chain_loop (cert # rest) certChainCpy w =
     (case X509_dup (Some cert) w of
        (dup, w1) \<Rightarrow>
          (case sk_X509_push certChainCpy dup w1 of
             (certChainCpy', w2) \<Rightarrow> copy_chain_loop rest certChainCpy' w2))"

definition nassl_SSL_get_tlsext_status_ocsp_resp ::
  "(byte list \<Rightarrow> OCSP_RESPONSE option) \<Rightarrow> nassl_SSL_Object \<Rightarrow> world
     \<Rightarrow> (error + PyObject) \<times> world" where
  "nassl_SSL_get_tlsext_status_ocsp_resp parse self w =
     (case ssl self of
        None \<Rightarrow> (Inl (Fault ''self->ssl is NULL''), w)
      | Some s \<Rightarrow>
          (case SSL_get_tlsext_status_ocsp_resp s of
             (ocspRespLen, None) \<Rightarrow> (Inr Py_None, w)
           | (ocspRespLen, Some ocspBuf) \<Rightarrow>
               (case d2i_OCSP_RESPONSE parse ocspBuf ocspRespLen w of
                  (None, w1) \<Rightarrow>
                    (Inl (ValueError ''Error parsing the OCSP response. Should not happen ?''), w1)
                | (Some ocspResp, w1) \<Rightarrow>
                    (case SSL_get_peer_cert_chain s of
                       None \<Rightarrow>
                         (Inl (ValueError ''Error getting the peer's certificate chain.''), w1)
                     | Some certChain \<Rightarrow>
                         (case allocate w1 of
                            (False, w2) \<Rightarrow> (Inl OpenSSLError, w2)
                          | (True, w2) \<Rightarrow>
                              (case copy_chain_loop certChain [] w2 of
                                 (certChainCpy, w3) \<Rightarrow>
                                   (case allocate w3 of
                                      (False, w4) \<Rightarrow> (Inl MemoryError, w4)
                                    | (True, w4) \<Rightarrow>
                                        (Inr (OCSP_RESPONSE_Object ocspResp certChainCpy),
                                         w4))))))))"

subsection \<open>Construction, the two BIOs and destruction\<close>

text \<open>
  Format \<open>"O!"\<close> takes one object of the given Python type. The objects of the type
  \<open>_nassl.BIO\<close> are the \<open>BIO_Object\<close> values, those of \<open>_nassl.SSL_CTX\<close> the
  \<open>SSL_CTX_Object\<close> values.
\<close>

fun PyArg_ParseTuple_BIO :: "PyObject list \<Rightarrow> error + addr" where
  "PyArg_ParseTuple_BIO [BIO_Object p] = Inr p"
| "PyArg_ParseTuple_BIO _ = Inl TypeError"

fun PyArg_ParseTuple_SSL_CTX :: "PyObject list \<Rightarrow> error + addr" where
  "PyArg_ParseTuple_SSL_CTX [SSL_CTX_Object p] = Inr p"
| "PyArg_ParseTuple_SSL_CTX _ = Inl TypeError"

text \<open>
  \<open>Py_INCREF\<close> and \<open>Py_DECREF\<close> on the two kinds of stored objects. Both dereference
  their argument: on \<open>NULL\<close>, or on a pointer to no object, the process faults. The
  last \<open>Py_DECREF\<close> takes the object out of the store.
\<close>

definition Py_INCREF_BIO :: "addr option \<Rightarrow> world \<Rightarrow> error + world" where
  "Py_INCREF_BIO p w =
     (case p of
        None \<Rightarrow> Inl (Fault ''Py_INCREF(NULL)'')
      | Some a \<Rightarrow>
          (case bio_objects w a of
             None \<Rightarrow> Inl (Fault ''Py_INCREF on a dangling pointer'')
           | Some ob \<Rightarrow>
               Inr (w\<lparr>bio_objects := (bio_objects w)(a \<mapsto> ob\<lparr>bio_refcnt := bio_refcnt ob + 1\<rparr>)\<rparr>)))"

definition Py_DECREF_BIO_Object :: "addr option \<Rightarrow> world \<Rightarrow> error + world" where
  "Py_DECREF_BIO_Object p w =
     (case p of
        None \<Rightarrow> Inl (Fault ''Py_DECREF(NULL)'')
      | Some a \<Rightarrow>
          (case bio_objects w a of
             None \<Rightarrow> Inl (Fault ''Py_DECREF on a dangling pointer'')
           | Some ob \<Rightarrow>
               Inr (w\<lparr>bio_objects :=
                        (if bio_refcnt ob \<le> 1 then (bio_objects w)(a := None)
                         else (bio_objects w)(a \<mapsto> ob\<lparr>bio_refcnt := bio_refcnt ob - 1\<rparr>)),
                      released := released w @ [Py_DECREF_BIO a]\<rparr>)))"

definition Py_INCREF_CTX :: "addr option \<Rightarrow> world \<Rightarrow> error + world" where
  "Py_INCREF_CTX p w =
     (case p of
        None \<Rightarrow> Inl (Fault ''Py_INCREF(NULL)'')
      | Some a \<Rightarrow>
          (case ctx_objects w a of
             None \<Rightarrow> Inl (Fault ''Py_INCREF on a dangling pointer'')
           | Some ob \<Rightarrow>
               Inr (w\<lparr>ctx_objects := (ctx_objects w)(a \<mapsto> ob\<lparr>ctx_refcnt := ctx_refcnt ob + 1\<rparr>)\<rparr>)))"

definition Py_DECREF_CTX_Object :: "addr option \<Rightarrow> world \<Rightarrow> error + world" where
  "Py_DECREF_CTX_Object p w =
     (case p of
        None \<Rightarrow> Inl (Fault ''Py_DECREF(NULL)'')
      | Some a \<Rightarrow>
          (case ctx_objects w a of
             None \<Rightarrow> Inl (Fault ''Py_DECREF on a dangling pointer'')
           | Some ob \<Rightarrow>
               Inr (w\<lparr>ctx_objects :=
                        (if ctx_refcnt ob \<le> 1 then (ctx_objects w)(a := None)
                         else (ctx_objects w)(a \<mapsto> ob\<lparr>ctx_refcnt := ctx_refcnt ob - 1\<rparr>)),
                      released := released w @ [Py_DECREF_CTX a]\<rparr>)))"

text \<open>
  The engine's \<open>SSL_free(s)\<close>, a no-op on \<open>NULL\<close>: it drops the engine's references to
  the peer's certificate and to the certificates of the chain, and frees the state
  together with its internal BIOs.
\<close>

definition SSL_free_engine :: "SSL option \<Rightarrow> world \<Rightarrow> world" where
  "SSL_free_engine sp w =
     (case sp of
        None \<Rightarrow> w
      | Some s \<Rightarrow>
          (let w1 = (case peer s of None \<Rightarrow> w | Some a \<Rightarrow> X509_free a w);
               w2 = (case peer_chain s of None \<Rightarrow> w1 | Some chain \<Rightarrow> fold X509_free chain w1)
           in w2\<lparr>released := released w2 @ [SSL_free (rbio s) (wbio s)]\<rparr>))"

text \<open>The engine's \<open>BIO_vfree(b)\<close>, a no-op on \<open>NULL\<close>.\<close>

definition BIO_vfree_engine :: "addr option \<Rightarrow> world \<Rightarrow> world" where
  "BIO_vfree_engine b w =
     (case b of
        None \<Rightarrow> w
      | Some a \<Rightarrow> w\<lparr>released := released w @ [BIO_vfree a]\<rparr>)"

text \<open>
  \<open>nassl_SSL_dealloc\<close>, its first \<open>if\<close> statement apart. The field
  \<open>networkBio_Object->bio\<close> is read and cleared through the pointer, in the store; the
  struct of \<open>self\<close> is given back to the allocator at the end, so only the store is
  returned.
\<close>

definition dealloc_network_bio :: "nassl_SSL_Object \<Rightarrow> world \<Rightarrow> error + world" where
  "dealloc_network_bio self w =
     (if networkBio_Object self \<noteq> None
      then (case bio_objects w (the (networkBio_Object self)) of
              None \<Rightarrow> Inl (Fault ''networkBio_Object is a dangling pointer'')
            | Some ob \<Rightarrow>
                Py_DECREF_BIO_Object (networkBio_Object self)
                  (if bio ob \<noteq> None
                   then (BIO_vfree_engine (bio ob) w)
                          \<lparr>bio_objects :=
                             (bio_objects w)(the (networkBio_Object self) \<mapsto> ob\<lparr>bio := None\<rparr>)\<rparr>
                   else w))
      else Inr w)"

definition nassl_SSL_dealloc :: "nassl_SSL_Object \<Rightarrow> world \<Rightarrow> error + world" where
  "nassl_SSL_dealloc self w =
     (case dealloc_network_bio self w of
        Inl e \<Rightarrow> Inl e
      | Inr w1 \<Rightarrow>
          (let w2 = (if ssl self \<noteq> None then SSL_free_engine (ssl self) w1 else w1)
           in case (if sslCtx_Object self \<noteq> None
                    then Py_DECREF_CTX_Object (sslCtx_Object self) w2
                    else Inr w2) of
                Inl e \<Rightarrow> Inl e
              | Inr w3 \<Rightarrow> Inr (w3\<lparr>released := released w3 @ [Tp_free]\<rparr>)))"

text \<open>
  The engine's \<open>SSL_new(ctx)\<close>: the state the context is configured to yield, or
  \<open>NULL\<close>.
\<close>

definition SSL_new :: "nassl_SSL_CTX_Object \<Rightarrow> world \<Rightarrow> SSL option \<times> world" where
  "SSL_new ctx w =
     (case sslCtx ctx of
        None \<Rightarrow> (None, w)
      | Some s \<Rightarrow>
          (case allocate w of
             (False, w') \<Rightarrow> (None, w')
           | (True, w') \<Rightarrow> (Some s, w')))"

text \<open>
  \<open>nassl_SSL_new\<close>. Each \<open>Py_DECREF(self)\<close> of the error paths drops the only reference
  to \<open>self\<close> and so runs \<open>nassl_SSL_dealloc\<close> on the object as built so far. After a
  successful parse \<open>sslCtx_Object\<close> is not \<open>NULL\<close>, and the test for it never fires.
\<close>

definition nassl_SSL_new :: "PyObject list \<Rightarrow> world \<Rightarrow> (error + nassl_SSL_Object) \<times> world" where
  "nassl_SSL_new args w =
     (case allocate w of
        (False, w1) \<Rightarrow> (Inl MemoryError, w1)
      | (True, w1) \<Rightarrow>
          (let self = \<lparr>ssl = None, sslCtx_Object = None, networkBio_Object = None\<rparr>
           in case PyArg_ParseTuple_SSL_CTX args of
                Inl e \<Rightarrow>
                  (case nassl_SSL_dealloc self w1 of
                     Inl f \<Rightarrow> (Inl f, w1)
                   | Inr w2 \<Rightarrow> (Inl e, w2))
              | Inr sslCtx_Object_arg \<Rightarrow>
                  (case Py_INCREF_CTX (Some sslCtx_Object_arg) w1 of
                     Inl f \<Rightarrow> (Inl f, w1)
                   | Inr w2 \<Rightarrow>
                       (case SSL_new (the (ctx_objects w2 sslCtx_Object_arg)) w2 of
                          (None, w3) \<Rightarrow>
                            (case nassl_SSL_dealloc self w3 of
                               Inl f \<Rightarrow> (Inl f, w3)
                             | Inr w4 \<Rightarrow> (Inl OpenSSLError, w4))
                        | (Some s, w3) \<Rightarrow>
                            (Inr (self\<lparr>sslCtx_Object := Some sslCtx_Object_arg, ssl := Some s\<rparr>),
                             w3)))))"

text \<open>
  The engine's \<open>SSL_set_bio(s, rbio, wbio)\<close>. The state takes over the two BIOs it is
  given, and the engine frees the BIOs they replace: the former read BIO unless it is
  the new read BIO, and the former write BIO unless it is the new write BIO or was the
  read BIO as well. These are the statements of the function in OpenSSL 1.0.2, the
  engine of a build with \<open>LEGACY_OPENSSL\<close>; the later engine holds one counted reference
  for each direction and drops them, which destroys the same BIOs when both arguments
  are the same BIO, as they are in the one call of this file.
\<close>

definition BIO_free_all_engine :: "addr option \<Rightarrow> world \<Rightarrow> world" where
  "BIO_free_all_engine b w =
     (case b of
        None \<Rightarrow> w
      | Some a \<Rightarrow> w\<lparr>released := released w @ [BIO_free_all a]\<rparr>)"

definition SSL_set_bio :: "SSL \<Rightarrow> addr option \<Rightarrow> addr option \<Rightarrow> world \<Rightarrow> SSL \<times> world" where
  "SSL_set_bio s rb wb w =
     (let w1 = (if rbio s \<noteq> None \<and> rbio s \<noteq> rb then BIO_free_all_engine (rbio s) w else w);
          w2 = (if wbio s \<noteq> None \<and> wbio s \<noteq> wb \<and> rbio s \<noteq> wbio s
                then BIO_free_all_engine (wbio s) w1 else w1)
      in (s\<lparr>rbio := rb, wbio := wb\<rparr>, w2))"

definition nassl_SSL_set_bio ::
  "nassl_SSL_Object \<Rightarrow> PyObject list \<Rightarrow> world
     \<Rightarrow> (error + PyObject) \<times> nassl_SSL_Object \<times> world" where
  "nassl_SSL_set_bio self args w =
     (case PyArg_ParseTuple_BIO args of
        Inl e \<Rightarrow> (Inl e, self, w)
      | Inr internalBioObject \<Rightarrow>
          (case bio_objects w internalBioObject of
             None \<Rightarrow> (Inl (Fault ''internalBioObject is a dangling pointer''), self, w)
           | Some ob \<Rightarrow>
               (case ssl self of
                  None \<Rightarrow> (Inl (Fault ''self->ssl is NULL''), self, w)
                | Some s \<Rightarrow>
                    (case SSL_set_bio s (bio ob) (bio ob) w of
                       (s1, w1) \<Rightarrow> (Inr Py_None, self\<lparr>ssl := Some s1\<rparr>, w1)))))"

definition nassl_SSL_set_network_bio_to_free_when_dealloc ::
  "nassl_SSL_Object \<Rightarrow> PyObject list \<Rightarrow> world
     \<Rightarrow> (error + PyObject) \<times> nassl_SSL_Object \<times> world" where
  "nassl_SSL_set_network_bio_to_free_when_dealloc self args w =
     (case PyArg_ParseTuple_BIO args of
        Inl e \<Rightarrow> (Inl e, self, w)
      | Inr networkBioObject \<Rightarrow>
          (case Py_INCREF_BIO (Some networkBioObject) w of
             Inl f \<Rightarrow> (Inl f, self, w)
           | Inr w1 \<Rightarrow> (Inr Py_None, self\<lparr>networkBio_Object := Some networkBioObject\<rparr>, w1)))"

subsection \<open>The life of a connection\<close>

text \<open>
  The calls a caller can make on a connection before it is destroyed. \<open>Engine_call f\<close>
  stands for each of the remaining methods of the file (\<open>do_handshake\<close>, \<open>read\<close>,
  \<open>write\<close>, \<open>shutdown\<close>, ...): they hand \<open>self->ssl\<close> to one engine function, which
  changes the state of the engine in some way \<open>f\<close> and frees no BIO, and touch no other
  field.
\<close>

datatype method_call =
    Set_bio "PyObject list"
  | Set_network_bio_to_free_when_dealloc "PyObject list"
  | Set_verify "PyObject list"
  | Get_peer_certificate
  | Get_peer_cert_chain
  | Get_cipher_list
  | Get_cipher_description "PyObject list"
  | Get_cipher_bits
  | Get_cipher_name
  | Get_cipher_protocol_id
  | Get_client_CA_list
  | Get_tlsext_status_ocsp_resp
  | Engine_call "SSL \<Rightarrow> SSL"

fun call_method ::
  "bool \<Rightarrow> (byte list \<Rightarrow> OCSP_RESPONSE option) \<Rightarrow> method_call
     \<Rightarrow> nassl_SSL_Object \<times> world \<Rightarrow> nassl_SSL_Object \<times> world" where
  "call_method legacy parse (Set_bio args) (self, w) = snd (nassl_SSL_set_bio self args w)"
| "call_method legacy parse (Set_network_bio_to_free_when_dealloc args) (self, w) =
     snd (nassl_SSL_set_network_bio_to_free_when_dealloc self args w)"
| "call_method legacy parse (Set_verify args) (self, w) = (snd (nassl_SSL_set_verify self args), w)"
| "call_method legacy parse Get_peer_certificate (self, w) =
     (self, snd (nassl_SSL_get_peer_certificate self w))"
| "call_method legacy parse Get_peer_cert_chain (self, w) =
     (self, snd (nassl_SSL_get_peer_cert_chain self w))"
| "call_method legacy parse Get_cipher_list (self, w) =
     (self, snd (nassl_SSL_get_cipher_list self w))"
| "call_method legacy parse (Get_cipher_description args) (self, w) =
     (self, snd (nassl_SSL_get_cipher_description self args w))"
| "call_method legacy parse Get_cipher_bits (self, w) =
     (self, snd (nassl_SSL_get_cipher_bits legacy self w))"
| "call_method legacy parse Get_cipher_name (self, w) =
     (self, snd (nassl_SSL_get_cipher_name legacy self w))"
| "call_method legacy parse Get_cipher_protocol_id (self, w) =
     (self, snd (nassl_SSL_get_cipher_protocol_id legacy self w))"
| "call_method legacy parse Get_client_CA_list (self, w) = snd (nassl_SSL_get_client_CA_list self w)"
| "call_method legacy parse Get_tlsext_status_ocsp_resp (self, w) =
     (self, snd (nassl_SSL_get_tlsext_status_ocsp_resp parse self w))"
| "call_method legacy parse (Engine_call f) (self, w) = (self\<lparr>ssl := map_option f (ssl self)\<rparr>, w)"

definition run_calls ::
  "bool \<Rightarrow> (byte list \<Rightarrow> OCSP_RESPONSE option) \<Rightarrow> method_call list
     \<Rightarrow> nassl_SSL_Object \<times> world \<Rightarrow> nassl_SSL_Object \<times> world" where
  "run_calls legacy parse calls st = fold (call_method legacy parse) calls st"

text \<open>
  How often a log of releasing calls frees the native BIO \<open>b\<close>: once for each
  \<open>BIO_vfree(b)\<close>, once for each \<open>BIO_free_all(b)\<close>, and once for each \<open>SSL_free\<close> of a
  state that has \<open>b\<close> as an internal BIO.
\<close>

fun frees_bio :: "addr \<Rightarrow> release \<Rightarrow> nat" where
  "frees_bio b (BIO_vfree x) = (if x = b then 1 else 0)"
| "frees_bio b (BIO_free_all x) = (if x = b then 1 else 0)"
| "frees_bio b (SSL_free rb wb) = (if rb = Some b \<or> wb = Some b then 1 else 0)"
| "frees_bio b (Py_DECREF_BIO p) = 0"
| "frees_bio b (Py_DECREF_CTX p) = 0"
| "frees_bio b Tp_free = 0"

definition times_freed :: "addr \<Rightarrow> release list \<Rightarrow> nat" where
  "times_freed b log = sum_list (map (frees_bio b) log)"

subsection \<open>A connection after a handshake\<close>

text \<open>
  A concrete connection and store, used to evaluate the model: a client that has
  negotiated \<open>AES128-SHA\<close> with a server whose chain has two certificates (the leaf at
  address 100, which the engine references as the peer's certificate and as the first
  entry of the chain, and an intermediate at 101), that was sent two client CA names
  and a stapled OCSP response, and that was given the network BIO object at 20.
\<close>

definition AES128_SHA :: SSL_CIPHER where
  "AES128_SHA =
     \<lparr>cipher_name = Some ''AES128-SHA'', strength_bits = 128, cipher_id = 0x0300002F,
      cipher_description = ''AES128-SHA SSLv3 Kx=RSA Au=RSA Enc=AES(128) Mac=SHA1''\<rparr>"

definition ECDHE_RSA_AES256_GCM_SHA384 :: SSL_CIPHER where
  "ECDHE_RSA_AES256_GCM_SHA384 =
     \<lparr>cipher_name = Some ''ECDHE-RSA-AES256-GCM-SHA384'', strength_bits = 256,
      cipher_id = 0x0300C030,
      cipher_description =
        ''ECDHE-RSA-AES256-GCM-SHA384 TLSv1.2 Kx=ECDH Au=RSA Enc=AESGCM(256) Mac=AEAD''\<rparr>"

definition example_ssl :: SSL where
  "example_ssl =
     \<lparr>rbio = Some 10, wbio = Some 10, verify_mode = 0,
      peer = Some 100, peer_chain = Some [100, 101],
      ciphers = Some [ECDHE_RSA_AES256_GCM_SHA384, AES128_SHA],
      s3 = Some \<lparr>tmp_new_cipher = None\<rparr>,
      current_cipher = Some AES128_SHA,
      client_CA = Some [[(''C'', ''NL''), (''O'', ''Root'')], [(''C'', ''NL''), (''O'', ''Staat'')]],
      tlsext_ocsp_resp = Some [0x30, 0x03, 0x0A, 0x01, 0x00]\<rparr>"

definition example_world :: world where
  "example_world =
     \<lparr>x509_store = [100 \<mapsto> \<lparr>der = [0x30, 0x01], references = 2\<rparr>,
                    101 \<mapsto> \<lparr>der = [0x30, 0x02], references = 1\<rparr>],
      next_addr = 200,
      bio_objects = [20 \<mapsto> \<lparr>bio = Some 11, bio_refcnt = 2\<rparr>,
                     21 \<mapsto> \<lparr>bio = Some 12, bio_refcnt = 1\<rparr>,
                     22 \<mapsto> \<lparr>bio = Some 10, bio_refcnt = 1\<rparr>],
      ctx_objects = [30 \<mapsto> \<lparr>sslCtx = Some example_ssl, ctx_refcnt = 2\<rparr>],
      alloc_outcomes = [],
      released = []\<rparr>"

definition example_conn :: nassl_SSL_Object where
  "example_conn =
     \<lparr>ssl = Some example_ssl, sslCtx_Object = Some 30, networkBio_Object = Some 20\<rparr>"

text \<open>A decoder for the example: the status byte of a five-byte response, nothing else.\<close>

definition example_parse :: "byte list \<Rightarrow> OCSP_RESPONSE option" where
  "example_parse buf =
     (if length buf = 5 \<and> take 4 buf = [0x30, 0x03, 0x0A, 0x01]
      then Some (OCSP_RESPONSE (unat (buf ! 4)) [])
      else None)"

subsection \<open>Notions used in the statements\<close>

text \<open>
  The connection holds a counted reference to its network BIO object and to its
  context object: as long as the connection exists, the two pointers, when set, point
  to objects of the store.
\<close>

definition pointers_valid :: "nassl_SSL_Object \<Rightarrow> world \<Rightarrow> bool" where
  "pointers_valid self w =
     ((case networkBio_Object self of None \<Rightarrow> True | Some p \<Rightarrow> bio_objects w p \<noteq> None) \<and>
      (case sslCtx_Object self of None \<Rightarrow> True | Some c \<Rightarrow> ctx_objects w c \<noteq> None))"

text \<open>
  What the first step of \<open>nassl_SSL_dealloc\<close> is to release for the network BIO object
  of the connection: the native BIO, if the object still has one, then the reference to
  the object.
\<close>

definition released_for_network_bio :: "nassl_SSL_Object \<Rightarrow> world \<Rightarrow> release list" where
  "released_for_network_bio self w =
     (case networkBio_Object self of
        None \<Rightarrow> []
      | Some p \<Rightarrow>
          (case bio_objects w p of
             None \<Rightarrow> []
           | Some ob \<Rightarrow> (case bio ob of None \<Rightarrow> [] | Some b \<Rightarrow> [BIO_vfree b]) @ [Py_DECREF_BIO p]))"

text \<open>
  The number of references the engine state \<open>s\<close> holds to the certificate at \<open>a\<close>: one
  if it is the peer's certificate, and one for each entry of the chain that points to
  it. The engine counts them: a certificate the state refers to is in the store, with
  at least that many references.
\<close>

definition engine_holds :: "SSL \<Rightarrow> addr \<Rightarrow> nat" where
  "engine_holds s a =
     (if peer s = Some a then 1 else 0)
     + (case peer_chain s of None \<Rightarrow> 0 | Some chain \<Rightarrow> count_list chain a)"

definition certificates_valid :: "SSL \<Rightarrow> world \<Rightarrow> bool" where
  "certificates_valid s w =
     (\<forall>a. 0 < engine_holds s a \<longrightarrow>
        (case x509_store w a of None \<Rightarrow> False | Some c \<Rightarrow> engine_holds s a \<le> references c))"

text \<open>The allocator of certificates hands out addresses it has not handed out before.\<close>

definition store_ok :: "world \<Rightarrow> bool" where
  "store_ok w = (\<forall>a. x509_store w a \<noteq> None \<longrightarrow> a < next_addr w)"

text \<open>
  The store after the certificates of a chain have been duplicated one after the other,
  and the chains whose certificates are all in the store.
\<close>

fun X509_dup_all :: "addr list \<Rightarrow> world \<Rightarrow> world" where
  "X509_dup_all [] w = w"
| "X509_dup_all (a # rest) w = X509_dup_all rest (snd (X509_dup (Some a) w))"

definition chain_alive :: "addr list \<Rightarrow> world \<Rightarrow> bool" where
  "chain_alive chain w = (\<forall>a \<in> set chain. x509_store w a \<noteq> None)"

text \<open>
  A step from the store \<open>w\<close> to the store \<open>w'\<close> is quiet when it makes no releasing
  call, leaves the context objects as they are, and neither creates nor destroys a BIO
  object nor changes the native BIO of one (its reference count may change).
\<close>

definition quiet :: "world \<Rightarrow> world \<Rightarrow> bool" where
  "quiet w w' =
     (released w' = released w \<and> ctx_objects w' = ctx_objects w \<and>
      (\<forall>q. map_option bio (bio_objects w' q) = map_option bio (bio_objects w q)))"



text \<open>
  The specification sorts the failures into kinds. Its \<open>ProtocolError\<close> is a failure
  reported by the engine that "carries a textual diagnostic pulled from the engine's
  error queue": in this file, the exception of \<open>raise_OpenSSL_error()\<close>. An exception
  set with \<open>PyErr_SetString(PyExc_ValueError, msg)\<close> carries a fixed message and is
  the one raised for an unrecognised verification mode.
\<close>

definition spec_ProtocolError :: "error \<Rightarrow> bool" where
  "spec_ProtocolError e = (e = OpenSSLError)"

text \<open>The configured ciphers as a list: none when the engine's stack is \<open>NULL\<close>.\<close>

definition configured_ciphers :: "SSL \<Rightarrow> SSL_CIPHER list" where
  "configured_ciphers s = (case SSL_get_ciphers s of None \<Rightarrow> [] | Some sk \<Rightarrow> sk)"

section \<open>Properties\<close>

text \<open>
  Unless said otherwise the properties are about runs in which no allocation fails
  (\<open>alloc_outcomes w = []\<close>) and about constructed connections (\<open>ssl self = Some s\<close>:
  \<open>nassl_SSL_new\<close> returns no other).
\<close>

declare get_cipher_list_loop.simps [simp del]
declare find_cipher_loop.simps [simp del]

lemma allocate_unscheduled [simp]: "alloc_outcomes w = [] \<Longrightarrow> allocate w = (True, w)"
  by (simp add: allocate_def)

lemma PyUnicode_FromString_unscheduled [simp]:
  "alloc_outcomes w = [] \<Longrightarrow> PyUnicode_FromString str w = (Some (PyUnicode str), w)"
  by (simp add: PyUnicode_FromString_def)

lemma PyList_Append_unscheduled [simp]:
  "alloc_outcomes w = [] \<Longrightarrow> PyList_Append lst item w = (Some (lst @ [item]), w)"
  by (simp add: PyList_Append_def)

lemma example_world_unscheduled [simp]: "alloc_outcomes example_world = []"
  by (simp add: example_world_def)

lemma ssl_example_conn [simp]: "ssl example_conn = Some example_ssl"
  by (simp add: example_conn_def)

subsection \<open>Verification mode\<close>

lemmas verify_modes =
  SSL_VERIFY_NONE_def SSL_VERIFY_PEER_def SSL_VERIFY_FAIL_IF_NO_PEER_CERT_def
  SSL_VERIFY_CLIENT_ONCE_def

lemma word32_of_int_eq_iff:
  "0 \<le> k \<Longrightarrow> k < 4294967296 \<Longrightarrow>
     ((word_of_int n :: 32 word) = word_of_int k) = (n mod 4294967296 = k)"
  by (simp add: word_of_int_eq_iff take_bit_eq_mod)

lemma parse_I_modes:
  "((word_of_int n :: 32 word) = 0) = (n mod 4294967296 = 0)"
  "((word_of_int n :: 32 word) = 1) = (n mod 4294967296 = 1)"
  "((word_of_int n :: 32 word) = 2) = (n mod 4294967296 = 2)"
  "((word_of_int n :: 32 word) = 4) = (n mod 4294967296 = 4)"
  using word32_of_int_eq_iff [of 0 n] word32_of_int_eq_iff [of 1 n]
        word32_of_int_eq_iff [of 2 n] word32_of_int_eq_iff [of 4 n]
  by simp_all

lemma set_verify_on_integer:
  "nassl_SSL_set_verify self [PyLong n] =
     (if n mod 4294967296 \<in> {0, 1, 2, 4}
      then (case ssl self of
              None \<Rightarrow> (Inl (Fault ''SSL_set_verify(NULL)''), self)
            | Some s \<Rightarrow> (Inr Py_None, self\<lparr>ssl := Some (SSL_set_verify s (word_of_int n))\<rparr>))
      else (Inl (ValueError ''Invalid value for verification mode''), self))"
  by (simp add: nassl_SSL_set_verify_def verify_modes parse_I_modes split: option.splits)

text \<open>
  Claim C6, as stated, does not hold: the integer \<open>4294967297 = 2^32 + 1\<close> is none of
  the recognised modes \<open>0\<close>, \<open>1\<close>, \<open>2\<close>, \<open>4\<close>, yet \<open>set_verify\<close> does not reject it. The
  argument format \<open>"I"\<close> stores it as \<open>1\<close>, and the engine is called with
  \<open>SSL_VERIFY_PEER\<close>.
\<close>

theorem set_verify_accepts_wrapped_mode:
  "(4294967297 :: int) \<notin> {0, 1, 2, 4} \<and>
   nassl_SSL_set_verify example_conn [PyLong 4294967297] =
     (Inr Py_None, example_conn\<lparr>ssl := Some (example_ssl\<lparr>verify_mode := 1\<rparr>)\<rparr>)"
  by (simp add: nassl_SSL_set_verify_def verify_modes SSL_set_verify_def example_conn_def)

text \<open>
  Claim C6, amended: for every connection and every integer mode that fits a C \<open>int\<close>
  or \<open>unsigned int\<close> (\<open>-2^31 \<le> n < 2^32\<close>): when the mode is none of \<open>0\<close> (none),
  \<open>1\<close> (peer), \<open>2\<close> (fail if no peer certificate), \<open>4\<close> (client once), \<open>set_verify\<close>
  fails with \<open>ValueError\<close> before the engine is called, and the connection, with its
  engine state, is unchanged; when it is one of the four, the engine's
  \<open>SSL_set_verify\<close> is called with it and the method returns \<open>None\<close>.
\<close>

theorem set_verify_rejects_unrecognised_mode:
  assumes "ssl self = Some s" and "- 2147483648 \<le> n" and "n < 4294967296"
  shows "(n \<notin> {0, 1, 2, 4} \<longrightarrow>
            nassl_SSL_set_verify self [PyLong n] =
              (Inl (ValueError ''Invalid value for verification mode''), self)) \<and>
         (n \<in> {0, 1, 2, 4} \<longrightarrow>
            nassl_SSL_set_verify self [PyLong n] =
              (Inr Py_None, self\<lparr>ssl := Some (SSL_set_verify s (word_of_int n))\<rparr>))"
proof -
  have reduced: "n mod 4294967296 = (if 0 \<le> n then n else n + 4294967296)"
  proof (cases "0 \<le> n")
    case True
    with assms(3) show ?thesis by simp
  next
    case False
    have "n mod 4294967296 = (n + 4294967296) mod 4294967296"
      by simp
    also have "\<dots> = n + 4294967296"
      using False assms(2) by (intro mod_pos_pos_trivial) simp_all
    finally show ?thesis using False by simp
  qed
  have "n mod 4294967296 \<in> {0, 1, 2, 4} \<longleftrightarrow> n \<in> {0, 1, 2, 4}"
    unfolding reduced using assms(2) by auto
  with assms(1) show ?thesis
    by (simp add: set_verify_on_integer)
qed

theorem set_verify_rejects_unrecognised_mode_witness:
  "nassl_SSL_set_verify example_conn [PyLong 3] =
     (Inl (ValueError ''Invalid value for verification mode''), example_conn) \<and>
   nassl_SSL_set_verify example_conn [PyLong (- 1)] =
     (Inl (ValueError ''Invalid value for verification mode''), example_conn) \<and>
   nassl_SSL_set_verify example_conn [PyLong 2] =
     (Inr Py_None, example_conn\<lparr>ssl := Some (example_ssl\<lparr>verify_mode := 2\<rparr>)\<rparr>)"
  using set_verify_rejects_unrecognised_mode [OF ssl_example_conn, of 3]
        set_verify_rejects_unrecognised_mode [OF ssl_example_conn, of "- 1"]
        set_verify_rejects_unrecognised_mode [OF ssl_example_conn, of 2]
  by (simp add: SSL_set_verify_def)

subsection \<open>The list of configured ciphers\<close>

lemma names_from_Some:
  "SSL_get_cipher_list s i = Some n \<Longrightarrow>
     takeWhile (\<lambda>n. n \<noteq> None) (map cipher_name (drop i (configured_ciphers s))) =
       Some n # takeWhile (\<lambda>n. n \<noteq> None) (map cipher_name (drop (i + 1) (configured_ciphers s)))"
  by (auto simp: SSL_get_cipher_list_def configured_ciphers_def Cons_nth_drop_Suc [symmetric]
        split: option.splits if_splits)

lemma names_from_None:
  "SSL_get_cipher_list s i = None \<Longrightarrow>
     takeWhile (\<lambda>n. n \<noteq> None) (map cipher_name (drop i (configured_ciphers s))) = []"
  by (auto simp: SSL_get_cipher_list_def configured_ciphers_def Cons_nth_drop_Suc [symmetric]
        split: option.splits if_splits)

lemma get_cipher_list_loop_names:
  "alloc_outcomes w = [] \<Longrightarrow> SSL_get_cipher_list s i \<noteq> None \<Longrightarrow>
     get_cipher_list_loop s i acc w =
       (Inr (PyList (acc @ map (\<lambda>n. PyUnicode (the n))
          (takeWhile (\<lambda>n. n \<noteq> None) (map cipher_name (drop i (configured_ciphers s)))))), w)"
proof (induction s i acc w rule: get_cipher_list_loop.induct)
  case (1 s priority lst w)
  from "1.prems" obtain n where n: "SSL_get_cipher_list s priority = Some n"
    by auto
  show ?case
  proof (cases "SSL_get_cipher_list s (priority + 1) = None")
    case True
    with n "1.prems" show ?thesis
      by (subst get_cipher_list_loop.simps)
         (simp add: names_from_Some names_from_None del: not_None_eq)
  next
    case False
    have "get_cipher_list_loop s (priority + 1) (lst @ [PyUnicode n]) w =
            (Inr (PyList ((lst @ [PyUnicode n]) @ map (\<lambda>n. PyUnicode (the n))
               (takeWhile (\<lambda>n. n \<noteq> None)
                  (map cipher_name (drop (priority + 1) (configured_ciphers s)))))), w)"
      using "1.IH" [of n "Some (PyUnicode n)" w "PyUnicode n" "Some (lst @ [PyUnicode n])" w
                       "lst @ [PyUnicode n]"] n "1.prems" False
      by (simp del: not_None_eq)
    with n "1.prems" False show ?thesis
      by (subst get_cipher_list_loop.simps) (simp add: names_from_Some del: not_None_eq)
  qed
qed

lemma get_cipher_list_named_prefix:
  assumes "ssl self = Some s" and "alloc_outcomes w = []"
  shows "nassl_SSL_get_cipher_list self w =
           (if SSL_get_cipher_list s 0 = None then Inr Py_None
            else Inr (PyList (map (\<lambda>n. PyUnicode (the n))
                   (takeWhile (\<lambda>n. n \<noteq> None) (map cipher_name (configured_ciphers s))))), w)"
  using assms get_cipher_list_loop_names [of w s 0 "[]"]
  by (simp add: nassl_SSL_get_cipher_list_def del: not_None_eq)

lemma get_cipher_list_loop_nonempty:
  "get_cipher_list_loop s i acc w = (Inr (PyList lst), w') \<Longrightarrow> lst \<noteq> []"
proof (induction s i acc w rule: get_cipher_list_loop.induct)
  case (1 s priority acc w)
  from "1.prems" show ?case
    apply (subst (asm) get_cipher_list_loop.simps)
    apply (auto split: option.splits prod.splits if_splits bool.splits
             simp: PyList_Append_def dest!: "1.IH")
    done
qed

text \<open>
  Claim C10: for a connection whose configured cipher set is empty, so that the engine
  reports no cipher at priority \<open>0\<close>, \<open>get_cipher_list\<close> returns \<open>None\<close>, not an empty
  list; when at least one cipher is configured it returns the list of the names of
  the configured ciphers, in the order of the engine's stack, which is not empty.
  (The ciphers of the engine's table have names; the loop stops at a cipher without
  one, see \<open>get_cipher_list_named_prefix\<close>.)
\<close>

theorem get_cipher_list_none_or_names:
  assumes "ssl self = Some s" and "alloc_outcomes w = []"
    and "\<forall>c \<in> set (configured_ciphers s). cipher_name c \<noteq> None"
  shows "(configured_ciphers s = [] \<longrightarrow>
            SSL_get_cipher_list s 0 = None \<and>
            nassl_SSL_get_cipher_list self w = (Inr Py_None, w)) \<and>
         (configured_ciphers s \<noteq> [] \<longrightarrow>
            SSL_get_cipher_list s 0 \<noteq> None \<and>
            nassl_SSL_get_cipher_list self w =
              (Inr (PyList (map (\<lambda>c. PyUnicode (the (cipher_name c))) (configured_ciphers s))), w))"
proof -
  have all: "takeWhile (\<lambda>n. n \<noteq> None) (map cipher_name (configured_ciphers s)) =
               map cipher_name (configured_ciphers s)"
    using assms(3) by (simp add: takeWhile_eq_all_conv del: not_None_eq)
  have first: "SSL_get_cipher_list s 0 = None \<longleftrightarrow> configured_ciphers s = []"
    using assms(3)
    by (auto simp: SSL_get_cipher_list_def configured_ciphers_def split: option.splits)
  show ?thesis
    using get_cipher_list_named_prefix [OF assms(1,2)] first
    by (simp add: all comp_def del: not_None_eq)
qed

theorem get_cipher_list_none_or_names_witness:
  "nassl_SSL_get_cipher_list example_conn example_world =
     (Inr (PyList [PyUnicode ''ECDHE-RSA-AES256-GCM-SHA384'', PyUnicode ''AES128-SHA'']),
      example_world) \<and>
   nassl_SSL_get_cipher_list (example_conn\<lparr>ssl := Some (example_ssl\<lparr>ciphers := Some []\<rparr>)\<rparr>)
       example_world =
     (Inr Py_None, example_world)"
proof -
  have named: "\<forall>c \<in> set (configured_ciphers example_ssl). cipher_name c \<noteq> None"
    by (simp add: configured_ciphers_def SSL_get_ciphers_def example_ssl_def AES128_SHA_def
          ECDHE_RSA_AES256_GCM_SHA384_def)
  have none: "\<forall>c \<in> set (configured_ciphers (example_ssl\<lparr>ciphers := Some []\<rparr>)).
                cipher_name c \<noteq> None"
    by (simp add: configured_ciphers_def SSL_get_ciphers_def)
  have empty: "ssl (example_conn\<lparr>ssl := Some (example_ssl\<lparr>ciphers := Some []\<rparr>)\<rparr>) =
                 Some (example_ssl\<lparr>ciphers := Some []\<rparr>)"
    by simp
  from get_cipher_list_none_or_names [OF ssl_example_conn example_world_unscheduled named]
       get_cipher_list_none_or_names [OF empty example_world_unscheduled none]
  show ?thesis
    by (simp add: configured_ciphers_def SSL_get_ciphers_def example_ssl_def AES128_SHA_def
          ECDHE_RSA_AES256_GCM_SHA384_def)
qed

subsection \<open>The description of a cipher\<close>

lemma find_cipher_loop_found: "find_cipher_loop sk wanted i (Some c) = Some c"
  by (subst find_cipher_loop.simps) simp

lemma find_cipher_loop_find:
  "find_cipher_loop sk wanted i None =
     find (\<lambda>c. cipher_name c = Some wanted) (drop i (case sk of None \<Rightarrow> [] | Some l \<Rightarrow> l))"
proof (induction "(case sk of None \<Rightarrow> 0 | Some l \<Rightarrow> length l) - i" arbitrary: i)
  case 0
  then show ?case
    by (subst find_cipher_loop.simps) (simp add: sk_num_def split: option.splits)
next
  case (Suc k)
  then obtain l where l: "sk = Some l" and i: "i < length l"
    by (auto split: option.splits)
  from Suc have k: "k = (case sk of None \<Rightarrow> 0 | Some l \<Rightarrow> length l) - (i + 1)"
    by simp
  show ?case
  proof (cases "cipher_name (l ! i) = Some wanted")
    case True
    with l i show ?thesis
      by (subst find_cipher_loop.simps)
         (simp add: sk_num_def sk_value_def SSL_CIPHER_get_name_def find_cipher_loop_found
            Cons_nth_drop_Suc [symmetric])
  next
    case False
    with l i Suc.hyps(1) [OF k] show ?thesis
      by (subst find_cipher_loop.simps)
         (simp add: sk_num_def sk_value_def SSL_CIPHER_get_name_def
            Cons_nth_drop_Suc [symmetric])
  qed
qed

lemma find_SomeD: "find P xs = Some x \<Longrightarrow> x \<in> set xs \<and> P x"
  by (induction xs) (auto split: if_splits)

lemma get_cipher_description_find:
  assumes "ssl self = Some s" and "alloc_outcomes w = []" and "PyUnicode_Check name"
  shows "nassl_SSL_get_cipher_description self [name] w =
           (case PyUnicode_AsUTF8AndSize name of
              Inl e \<Rightarrow> (Inl e, w)
            | Inr wanted \<Rightarrow>
                if CHR 0x00 \<in> set wanted then (Inl (ValueError ''embedded null character''), w)
                else case find (\<lambda>c. cipher_name c = Some wanted) (configured_ciphers s) of
                       None \<Rightarrow> (Inr Py_None, w)
                     | Some c \<Rightarrow> (Inr (PyUnicode (SSL_CIPHER_description c)), w))"
  using assms
  by (simp add: nassl_SSL_get_cipher_description_def find_cipher_loop_find
        configured_ciphers_def split: option.splits sum.splits)

text \<open>
  Which names format \<open>"s"\<close> refuses, in terms of the code points of the \<open>str\<close>: the
  encoder fails exactly on a \<open>str\<close> that holds a surrogate, and the encoding of a
  \<open>str\<close> holds a null byte exactly when the \<open>str\<close> holds the null character.
\<close>

lemma char_of_null_iff: "(char_of (n::nat) = CHR 0x00) = (n mod 256 = 0)"
proof -
  have "(char_of n = CHR 0x00) = ((of_char (char_of n :: char) :: nat) = of_char (CHR 0x00))"
    by (simp only: of_char_eq_iff)
  then show ?thesis by simp
qed

lemma byte_not_null: "0 < n \<Longrightarrow> n < 256 \<Longrightarrow> char_of (n::nat) \<noteq> CHR 0x00"
  by (simp add: char_of_null_iff)

lemma utf8_encoder_null_iff:
  assumes "ch \<le> 0x10FFFF"
  shows "CHR 0x00 \<in> set (utf8_encoder ch) \<longleftrightarrow> ch = 0"
proof -
  have low: "char_of (0x80 + k mod 64) \<noteq> CHR 0x00" for k :: nat
  proof -
    have "k mod 64 < 64" by simp
    then have "0 < 0x80 + k mod 64" and "0x80 + k mod 64 < 256" by simp_all
    then show ?thesis by (rule byte_not_null)
  qed
  have two: "char_of (0xC0 + ch div 64) \<noteq> CHR 0x00" if "ch < 0x800"
  proof -
    from that have "ch div 64 < 32" by (simp add: div_less_iff_less_mult)
    then have "0 < 0xC0 + ch div 64" and "0xC0 + ch div 64 < 256" by simp_all
    then show ?thesis by (rule byte_not_null)
  qed
  have three: "char_of (0xE0 + ch div 4096) \<noteq> CHR 0x00" if "ch < 0x10000"
  proof -
    from that have "ch div 4096 < 16" by (simp add: div_less_iff_less_mult)
    then have "0 < 0xE0 + ch div 4096" and "0xE0 + ch div 4096 < 256" by simp_all
    then show ?thesis by (rule byte_not_null)
  qed
  have four: "char_of (0xF0 + ch div 262144) \<noteq> CHR 0x00"
  proof -
    from assms have "ch div 262144 < 16" by (simp add: div_less_iff_less_mult)
    then have "0 < 0xF0 + ch div 262144" and "0xF0 + ch div 262144 < 256" by simp_all
    then show ?thesis by (rule byte_not_null)
  qed
  show ?thesis
  proof (cases "ch < 0x80")
    case True
    then have "utf8_encoder ch = [char_of ch]" by (simp add: utf8_encoder_def)
    moreover from True have "(char_of ch = CHR 0x00) = (ch = 0)"
      by (simp add: char_of_null_iff)
    ultimately show ?thesis by auto
  next
    case False
    then have nz: "ch \<noteq> 0" by simp
    have "CHR 0x00 \<notin> set (utf8_encoder ch)"
    proof (cases "ch < 0x800")
      case True
      with False have "utf8_encoder ch = [char_of (0xC0 + ch div 64), char_of (0x80 + ch mod 64)]"
        by (simp add: utf8_encoder_def)
      with two [OF True] low [of ch] show ?thesis by (auto simp del: char_of_nat)
    next
      case f2: False
      show ?thesis
      proof (cases "ch < 0x10000")
        case True
        with False f2 have "utf8_encoder ch =
            [char_of (0xE0 + ch div 4096), char_of (0x80 + (ch div 64) mod 64),
             char_of (0x80 + ch mod 64)]"
          by (simp add: utf8_encoder_def)
        with three [OF True] low [of ch] low [of "ch div 64"] show ?thesis by auto
      next
        case f3: False
        with False f2 have "utf8_encoder ch =
            [char_of (0xF0 + ch div 262144), char_of (0x80 + (ch div 4096) mod 64),
             char_of (0x80 + (ch div 64) mod 64), char_of (0x80 + ch mod 64)]"
          by (simp add: utf8_encoder_def)
        with four low [of ch] low [of "ch div 64"] low [of "ch div 4096"] show ?thesis by auto
      qed
    qed
    with nz show ?thesis by simp
  qed
qed

lemma AsUTF8_surrogate_iff:
  "(\<exists>e. PyUnicode_AsUTF8AndSize (PyUnicode_UCS4 points) = Inl e) \<longleftrightarrow>
     (\<exists>ch \<in> set points. 0xD800 \<le> ch \<and> ch \<le> 0xDFFF)"
  by (simp add: list_ex_iff Py_UNICODE_IS_SURROGATE_def)

lemma AsUTF8_null_iff:
  assumes "\<forall>ch \<in> set points. ch \<le> 0x10FFFF"
    and "PyUnicode_AsUTF8AndSize (PyUnicode_UCS4 points) = Inr wanted"
  shows "CHR 0x00 \<in> set wanted \<longleftrightarrow> 0 \<in> set points"
proof -
  from assms(2) have "wanted = concat (map utf8_encoder points)"
    by (simp split: if_splits)
  with assms(1) show ?thesis
    by (auto simp: utf8_encoder_null_iff)
qed

text \<open>
  Claim C8, amended: for every connection and every cipher name, a \<open>str\<close>, that has a
  UTF-8 encoding (it holds no surrogate) without a null byte, \<open>cipher_description(name)\<close>
  returns a description exactly when some cipher of the configured set has exactly that
  name (it is then the description of such a cipher), and returns \<open>None\<close> when no
  configured cipher has it. The other names are refused by the argument parsing: a name
  that cannot be encoded with the error of the encoder, a name with an embedded null
  character with a \<open>ValueError\<close>.
\<close>

theorem get_cipher_description_exact_match:
  assumes "ssl self = Some s" and "alloc_outcomes w = []" and "PyUnicode_Check name"
  shows "(\<forall>e. PyUnicode_AsUTF8AndSize name = Inl e \<longrightarrow>
            nassl_SSL_get_cipher_description self [name] w = (Inl e, w)) \<and>
         (\<forall>wanted. PyUnicode_AsUTF8AndSize name = Inr wanted \<longrightarrow>
            (CHR 0x00 \<in> set wanted \<longrightarrow>
               nassl_SSL_get_cipher_description self [name] w =
                 (Inl (ValueError ''embedded null character''), w)) \<and>
            (CHR 0x00 \<notin> set wanted \<longrightarrow>
               ((\<exists>c \<in> set (configured_ciphers s). cipher_name c = Some wanted) \<longrightarrow>
                  (\<exists>c \<in> set (configured_ciphers s). cipher_name c = Some wanted \<and>
                     nassl_SSL_get_cipher_description self [name] w =
                       (Inr (PyUnicode (SSL_CIPHER_description c)), w))) \<and>
               (\<not> (\<exists>c \<in> set (configured_ciphers s). cipher_name c = Some wanted) \<longrightarrow>
                  nassl_SSL_get_cipher_description self [name] w = (Inr Py_None, w))))"
proof (intro conjI allI impI)
  fix e
  assume "PyUnicode_AsUTF8AndSize name = Inl e"
  then show "nassl_SSL_get_cipher_description self [name] w = (Inl e, w)"
    by (simp add: get_cipher_description_find [OF assms])
next
  fix wanted
  assume "PyUnicode_AsUTF8AndSize name = Inr wanted" and "CHR 0x00 \<in> set wanted"
  then show "nassl_SSL_get_cipher_description self [name] w =
               (Inl (ValueError ''embedded null character''), w)"
    by (simp add: get_cipher_description_find [OF assms])
next
  fix wanted
  assume enc: "PyUnicode_AsUTF8AndSize name = Inr wanted" and nul: "CHR 0x00 \<notin> set wanted"
    and "\<exists>c \<in> set (configured_ciphers s). cipher_name c = Some wanted"
  then obtain c where c: "find (\<lambda>c. cipher_name c = Some wanted) (configured_ciphers s) = Some c"
    by (cases "find (\<lambda>c. cipher_name c = Some wanted) (configured_ciphers s)")
       (auto simp: find_None_iff)
  then have "c \<in> set (configured_ciphers s) \<and> cipher_name c = Some wanted"
    using find_SomeD [of "\<lambda>c. cipher_name c = Some wanted" "configured_ciphers s" c] by simp
  with c enc nul
  show "\<exists>c \<in> set (configured_ciphers s). cipher_name c = Some wanted \<and>
          nassl_SSL_get_cipher_description self [name] w =
            (Inr (PyUnicode (SSL_CIPHER_description c)), w)"
    by (auto simp: get_cipher_description_find [OF assms])
next
  fix wanted
  assume enc: "PyUnicode_AsUTF8AndSize name = Inr wanted" and nul: "CHR 0x00 \<notin> set wanted"
    and "\<not> (\<exists>c \<in> set (configured_ciphers s). cipher_name c = Some wanted)"
  then have "find (\<lambda>c. cipher_name c = Some wanted) (configured_ciphers s) = None"
    by (simp add: find_None_iff)
  with enc nul show "nassl_SSL_get_cipher_description self [name] w = (Inr Py_None, w)"
    by (simp add: get_cipher_description_find [OF assms])
qed

text \<open>
  Claim C8, as stated, does not hold for every string. No configured cipher is named by
  the one-character string that holds the null character, nor by the one-character
  string that holds the surrogate \<open>U+D800\<close>, and the call does not return \<open>None\<close> for
  them: it raises a \<open>ValueError\<close> for the first and a \<open>UnicodeEncodeError\<close> for the
  second.
\<close>

theorem get_cipher_description_refuses_names:
  "\<not> (\<exists>c \<in> set (configured_ciphers example_ssl). cipher_name c = Some [CHR 0x00]) \<and>
   nassl_SSL_get_cipher_description example_conn [PyUnicode [CHR 0x00]] example_world =
     (Inl (ValueError ''embedded null character''), example_world) \<and>
   nassl_SSL_get_cipher_description example_conn [PyUnicode_UCS4 [0]] example_world =
     (Inl (ValueError ''embedded null character''), example_world) \<and>
   nassl_SSL_get_cipher_description example_conn [PyUnicode_UCS4 [0xD800]] example_world =
     (Inl UnicodeEncodeError, example_world)"
  by (simp add: nassl_SSL_get_cipher_description_def configured_ciphers_def SSL_get_ciphers_def
        Py_UNICODE_IS_SURROGATE_def utf8_encoder_def char_of_def
        example_ssl_def AES128_SHA_def ECDHE_RSA_AES256_GCM_SHA384_def)

theorem get_cipher_description_exact_match_witness:
  "nassl_SSL_get_cipher_description example_conn [PyUnicode ''AES128-SHA''] example_world =
     (Inr (PyUnicode ''AES128-SHA SSLv3 Kx=RSA Au=RSA Enc=AES(128) Mac=SHA1''), example_world) \<and>
   nassl_SSL_get_cipher_description example_conn
       [PyUnicode_UCS4 [0x41, 0x45, 0x53, 0x31, 0x32, 0x38, 0x2D, 0x53, 0x48, 0x41]]
       example_world =
     (Inr (PyUnicode ''AES128-SHA SSLv3 Kx=RSA Au=RSA Enc=AES(128) Mac=SHA1''), example_world) \<and>
   nassl_SSL_get_cipher_description example_conn [PyUnicode ''RC4-MD5''] example_world =
     (Inr Py_None, example_world) \<and>
   nassl_SSL_get_cipher_description example_conn [PyUnicode_UCS4 [0x41, 0xE9]] example_world =
     (Inr Py_None, example_world)"
  using get_cipher_description_exact_match
          [OF ssl_example_conn example_world_unscheduled, of "PyUnicode ''AES128-SHA''"]
        get_cipher_description_exact_match
          [OF ssl_example_conn example_world_unscheduled,
           of "PyUnicode_UCS4 [0x41, 0x45, 0x53, 0x31, 0x32, 0x38, 0x2D, 0x53, 0x48, 0x41]"]
        get_cipher_description_exact_match
          [OF ssl_example_conn example_world_unscheduled, of "PyUnicode ''RC4-MD5''"]
        get_cipher_description_exact_match
          [OF ssl_example_conn example_world_unscheduled, of "PyUnicode_UCS4 [0x41, 0xE9]"]
  by (simp add: configured_ciphers_def SSL_get_ciphers_def SSL_CIPHER_description_def
        Py_UNICODE_IS_SURROGATE_def utf8_encoder_def char_of_def bit_Suc_0_iff
        example_ssl_def AES128_SHA_def ECDHE_RSA_AES256_GCM_SHA384_def)

subsection \<open>The cipher of the connection\<close>

lemma Py_BuildValue_I_unscheduled [simp]:
  "alloc_outcomes w = [] \<Longrightarrow> Py_BuildValue_I v w = (Inr (PyLong (uint v)), w)"
  by (simp add: Py_BuildValue_I_def)

lemma Py_BuildValue_H_unscheduled [simp]:
  "alloc_outcomes w = [] \<Longrightarrow> Py_BuildValue_H v w = (Inr (PyLong (uint v)), w)"
  by (simp add: Py_BuildValue_H_def)

lemma low_16_bits: "uint (ucast (x AND 0x0000FFFF :: 32 word) :: 16 word) = uint x mod 65536"
proof -
  have m: "(0x0000FFFF :: 32 word) = mask 16" by (simp add: mask_eq_exp_minus_1)
  have "x AND mask 16 = take_bit 16 x" by (simp add: take_bit_eq_mask)
  then have "uint (x AND 0x0000FFFF) = take_bit 16 (uint x)"
    unfolding m by (simp add: unsigned_take_bit_eq)
  then have "uint (ucast (x AND 0x0000FFFF :: 32 word) :: 16 word) = take_bit 16 (uint x)"
    by (simp add: unsigned_ucast_eq)
  then show ?thesis by (simp add: take_bit_eq_mod)
qed

lemma get_tmp_new_cipher_constructed:
  "ssl self = Some s \<Longrightarrow>
     get_tmp_new_cipher legacy self =
       (if legacy then (case s3 s of None \<Rightarrow> None | Some st \<Rightarrow> tmp_new_cipher st) else None)"
  by (simp add: get_tmp_new_cipher_def)

text \<open>
  What the three queries compute, by build. With \<open>LEGACY_OPENSSL\<close>, \<open>get_cipher_name\<close>
  and \<open>get_cipher_bits\<close> report the candidate cipher when the engine holds one and fall
  back to the committed cipher otherwise (\<open>None\<close> and \<open>0\<close> when there is neither);
  \<open>get_cipher_protocol_id\<close> reports the low 16 bits of the candidate's identifier and
  has no second case. Without \<open>LEGACY_OPENSSL\<close> no candidate is read.
\<close>

lemma cipher_queries_by_build:
  assumes "ssl self = Some s" and "alloc_outcomes w = []"
    and "candidate = (case s3 s of None \<Rightarrow> None | Some st \<Rightarrow> tmp_new_cipher st)"
    and "reported = (if legacy then spec_reported_cipher s else SSL_get_current_cipher s)"
    and "\<forall>c. reported = Some c \<longrightarrow> (\<exists>n. cipher_name c = Some n \<and> n \<noteq> ''(NONE)'')"
  shows "nassl_SSL_get_cipher_name legacy self w =
           (case reported of
              None \<Rightarrow> (Inr Py_None, w)
            | Some c \<Rightarrow> (Inr (PyUnicode (the (cipher_name c))), w)) \<and>
         nassl_SSL_get_cipher_bits legacy self w =
           (case reported of
              None \<Rightarrow> (Inr (PyLong 0), w)
            | Some c \<Rightarrow> (Inr (PyLong (uint (strength_bits c))), w)) \<and>
         nassl_SSL_get_cipher_protocol_id legacy self w =
           (case (if legacy then candidate else None) of
              None \<Rightarrow> (Inr Py_None, w)
            | Some c \<Rightarrow> (Inr (PyLong (uint (cipher_id c) mod 65536)), w))"
proof (intro conjI)
  have sel: "(case get_tmp_new_cipher legacy self of
                Some c \<Rightarrow> Some c
              | None \<Rightarrow> SSL_get_current_cipher s) = reported"
    using assms(1,4)
    by (simp add: get_tmp_new_cipher_constructed spec_reported_cipher_def
          SSL_get_current_cipher_def split: option.splits)
  show "nassl_SSL_get_cipher_name legacy self w =
           (case reported of
              None \<Rightarrow> (Inr Py_None, w)
            | Some c \<Rightarrow> (Inr (PyUnicode (the (cipher_name c))), w))"
  proof (cases reported)
    case None
    with sel assms(1,2) show ?thesis
      by (simp add: nassl_SSL_get_cipher_name_def SSL_get_cipher_name_def
            SSL_CIPHER_get_name_def split: option.splits)
  next
    case (Some c)
    with assms(5) obtain n where n: "cipher_name c = Some n" "n \<noteq> ''(NONE)''"
      by auto
    with Some sel assms(1,2) show ?thesis
      by (auto simp: nassl_SSL_get_cipher_name_def SSL_get_cipher_name_def
            SSL_CIPHER_get_name_def split: option.splits)
  qed
  show "nassl_SSL_get_cipher_bits legacy self w =
           (case reported of
              None \<Rightarrow> (Inr (PyLong 0), w)
            | Some c \<Rightarrow> (Inr (PyLong (uint (strength_bits c))), w))"
    using assms(1-4)
    by (auto simp: nassl_SSL_get_cipher_bits_def get_tmp_new_cipher_constructed
          spec_reported_cipher_def SSL_get_cipher_bits_def SSL_CIPHER_get_bits_def
          SSL_get_current_cipher_def split: option.splits)
  show "nassl_SSL_get_cipher_protocol_id legacy self w =
           (case (if legacy then candidate else None) of
              None \<Rightarrow> (Inr Py_None, w)
            | Some c \<Rightarrow> (Inr (PyLong (uint (cipher_id c) mod 65536)), w))"
    using assms(1-3)
    by (auto simp: nassl_SSL_get_cipher_protocol_id_def get_tmp_new_cipher_constructed
          low_16_bits split: option.splits)
qed

lemma cipher_queries_with_candidate:
  "nassl_SSL_get_cipher_name True
       (example_conn\<lparr>ssl := Some (example_ssl
          \<lparr>s3 := Some \<lparr>tmp_new_cipher = Some ECDHE_RSA_AES256_GCM_SHA384\<rparr>\<rparr>)\<rparr>)
       example_world =
     (Inr (PyUnicode ''ECDHE-RSA-AES256-GCM-SHA384''), example_world) \<and>
   nassl_SSL_get_cipher_bits True
       (example_conn\<lparr>ssl := Some (example_ssl
          \<lparr>s3 := Some \<lparr>tmp_new_cipher = Some ECDHE_RSA_AES256_GCM_SHA384\<rparr>\<rparr>)\<rparr>)
       example_world =
     (Inr (PyLong 256), example_world) \<and>
   nassl_SSL_get_cipher_protocol_id True
       (example_conn\<lparr>ssl := Some (example_ssl
          \<lparr>s3 := Some \<lparr>tmp_new_cipher = Some ECDHE_RSA_AES256_GCM_SHA384\<rparr>\<rparr>)\<rparr>)
       example_world =
     (Inr (PyLong 49200), example_world)"
proof -
  let ?s = "example_ssl\<lparr>s3 := Some \<lparr>tmp_new_cipher = Some ECDHE_RSA_AES256_GCM_SHA384\<rparr>\<rparr>"
  have conn: "ssl (example_conn\<lparr>ssl := Some ?s\<rparr>) = Some ?s"
    by simp
  have reported: "(if True then spec_reported_cipher ?s else SSL_get_current_cipher ?s) =
                    Some ECDHE_RSA_AES256_GCM_SHA384"
    by (simp add: spec_reported_cipher_def)
  have named: "\<forall>c. (if True then spec_reported_cipher ?s else SSL_get_current_cipher ?s) = Some c
                 \<longrightarrow> (\<exists>n. cipher_name c = Some n \<and> n \<noteq> ''(NONE)'')"
    unfolding reported by (simp add: ECDHE_RSA_AES256_GCM_SHA384_def)
  from cipher_queries_by_build [OF conn example_world_unscheduled refl refl named] reported
  show ?thesis
    by (simp add: ECDHE_RSA_AES256_GCM_SHA384_def)
qed

text \<open>
  Claim C4 is not met by \<open>get_cipher_protocol_id\<close>. In the example the handshake is
  over: there is no candidate cipher and the committed cipher is \<open>AES128-SHA\<close>, which
  is the cipher the specification has all three queries report. \<open>get_cipher_name\<close> and
  \<open>get_cipher_bits\<close> fall back to it, in a build with \<open>LEGACY_OPENSSL\<close> and in a build
  without, and return its name and its 128 bits; \<open>get_cipher_protocol_id\<close> returns
  \<open>None\<close> in both builds, where the identifier of \<open>AES128-SHA\<close> is 47, the value the
  query returns while the same cipher is still the candidate.
\<close>

theorem cipher_protocol_id_has_no_fallback:
  "spec_reported_cipher example_ssl = Some AES128_SHA \<and>
   nassl_SSL_get_cipher_name True example_conn example_world =
     (Inr (PyUnicode ''AES128-SHA''), example_world) \<and>
   nassl_SSL_get_cipher_bits True example_conn example_world =
     (Inr (PyLong 128), example_world) \<and>
   nassl_SSL_get_cipher_protocol_id True example_conn example_world =
     (Inr Py_None, example_world) \<and>
   nassl_SSL_get_cipher_name False example_conn example_world =
     (Inr (PyUnicode ''AES128-SHA''), example_world) \<and>
   nassl_SSL_get_cipher_bits False example_conn example_world =
     (Inr (PyLong 128), example_world) \<and>
   nassl_SSL_get_cipher_protocol_id False example_conn example_world =
     (Inr Py_None, example_world) \<and>
   nassl_SSL_get_cipher_protocol_id True
       (example_conn\<lparr>ssl := Some (example_ssl\<lparr>s3 := Some \<lparr>tmp_new_cipher = Some AES128_SHA\<rparr>\<rparr>)\<rparr>)
       example_world =
     (Inr (PyLong 47), example_world)"
  by (simp add: spec_reported_cipher_def nassl_SSL_get_cipher_bits_def
        nassl_SSL_get_cipher_name_def nassl_SSL_get_cipher_protocol_id_def
        get_tmp_new_cipher_def SSL_get_cipher_bits_def SSL_get_cipher_name_def
        SSL_CIPHER_get_bits_def SSL_CIPHER_get_name_def SSL_get_current_cipher_def
        low_16_bits example_ssl_def AES128_SHA_def)

subsection \<open>The client CA names\<close>

lemma sk_pop_snoc [simp]: "sk_pop (Some (xs @ [x])) = (Some x, Some xs)"
  by (simp add: sk_pop_def)

lemma get_client_CA_list_loop_pops_all:
  "alloc_outcomes w = [] \<Longrightarrow>
     get_client_CA_list_loop (length names) (Some names) acc w =
       (Inr (PyList (acc @ map (\<lambda>name. PyUnicode (X509_NAME_oneline name)) (rev names))),
        Some [], w)"
  by (induction names arbitrary: acc rule: rev_induct) simp_all

text \<open>
  Claim C9: \<open>get_client_CA_list\<close> pops every name off the engine's own stack of client
  CA names while it builds its result. The list it returns holds the names (rendered on
  one line) in the reverse of the engine's order, the engine's stack is empty
  afterwards, and a second call on the same connection returns the empty list.
\<close>

theorem get_client_CA_list_pops_in_reverse:
  assumes "ssl self = Some s" and "alloc_outcomes w = []"
    and "SSL_get_client_CA_list s = Some names"
  shows "nassl_SSL_get_client_CA_list self w =
           (Inr (PyList (map (\<lambda>name. PyUnicode (X509_NAME_oneline name)) (rev names))),
            self\<lparr>ssl := Some (s\<lparr>client_CA := Some []\<rparr>)\<rparr>, w) \<and>
         nassl_SSL_get_client_CA_list (self\<lparr>ssl := Some (s\<lparr>client_CA := Some []\<rparr>)\<rparr>) w =
           (Inr (PyList []), self\<lparr>ssl := Some (s\<lparr>client_CA := Some []\<rparr>)\<rparr>, w)"
  using assms get_client_CA_list_loop_pops_all [of w names "[]"]
  by (simp add: nassl_SSL_get_client_CA_list_def SSL_get_client_CA_list_def sk_num_def)

theorem get_client_CA_list_pops_in_reverse_witness:
  "nassl_SSL_get_client_CA_list example_conn example_world =
     (Inr (PyList [PyUnicode ''/C=NL/O=Staat'', PyUnicode ''/C=NL/O=Root'']),
      example_conn\<lparr>ssl := Some (example_ssl\<lparr>client_CA := Some []\<rparr>)\<rparr>, example_world) \<and>
   nassl_SSL_get_client_CA_list
       (example_conn\<lparr>ssl := Some (example_ssl\<lparr>client_CA := Some []\<rparr>)\<rparr>) example_world =
     (Inr (PyList []),
      example_conn\<lparr>ssl := Some (example_ssl\<lparr>client_CA := Some []\<rparr>)\<rparr>, example_world)"
proof -
  have names: "SSL_get_client_CA_list example_ssl =
                 Some [[(''C'', ''NL''), (''O'', ''Root'')], [(''C'', ''NL''), (''O'', ''Staat'')]]"
    by (simp add: SSL_get_client_CA_list_def example_ssl_def)
  from get_client_CA_list_pops_in_reverse [OF ssl_example_conn example_world_unscheduled names]
  show ?thesis by simp
qed

lemma get_client_CA_list_no_names:
  assumes "ssl self = Some s" and "alloc_outcomes w = []"
    and "SSL_get_client_CA_list s = None"
  shows "nassl_SSL_get_client_CA_list self w = (Inr (PyList []), self, w)"
  using assms
  by (simp add: nassl_SSL_get_client_CA_list_def SSL_get_client_CA_list_def sk_num_def)

subsection \<open>Destruction\<close>

lemma X509_free_frame [simp]:
  "released (X509_free a w) = released w"
  "bio_objects (X509_free a w) = bio_objects w"
  "ctx_objects (X509_free a w) = ctx_objects w"
  "alloc_outcomes (X509_free a w) = alloc_outcomes w"
  "next_addr (X509_free a w) = next_addr w"
  by (simp_all add: X509_free_def split: option.splits)

lemma fold_X509_free_frame [simp]:
  "released (fold X509_free chain w) = released w"
  "bio_objects (fold X509_free chain w) = bio_objects w"
  "ctx_objects (fold X509_free chain w) = ctx_objects w"
  "alloc_outcomes (fold X509_free chain w) = alloc_outcomes w"
  "next_addr (fold X509_free chain w) = next_addr w"
  by (induction chain arbitrary: w; simp)+

lemma SSL_free_engine_frame [simp]:
  "released (SSL_free_engine (Some s) w) = released w @ [SSL_free (rbio s) (wbio s)]"
  "bio_objects (SSL_free_engine sp w) = bio_objects w"
  "ctx_objects (SSL_free_engine sp w) = ctx_objects w"
  "alloc_outcomes (SSL_free_engine sp w) = alloc_outcomes w"
  "next_addr (SSL_free_engine sp w) = next_addr w"
  by (simp_all add: SSL_free_engine_def Let_def split: option.splits)

lemma dealloc_network_bio_result:
  assumes "pointers_valid self w"
  shows "\<exists>w1. dealloc_network_bio self w = Inr w1 \<and>
              released w1 = released w @ released_for_network_bio self w \<and>
              ctx_objects w1 = ctx_objects w \<and> x509_store w1 = x509_store w \<and>
              next_addr w1 = next_addr w \<and> alloc_outcomes w1 = alloc_outcomes w \<and>
              (\<forall>p ob'. networkBio_Object self = Some p \<longrightarrow> bio_objects w1 p = Some ob'
                  \<longrightarrow> bio ob' = None) \<and>
              (\<forall>q. networkBio_Object self \<noteq> Some q \<longrightarrow> bio_objects w1 q = bio_objects w q)"
  using assms
  by (auto simp: dealloc_network_bio_def pointers_valid_def Py_DECREF_BIO_Object_def
        BIO_vfree_engine_def released_for_network_bio_def split: option.splits)

text \<open>
  Claim C1: for every connection, whichever of its three fields are set,
  \<open>nassl_SSL_dealloc\<close> returns without a fault, and the releasing calls it makes are,
  in this order: for the network BIO object, if one was recorded, \<open>BIO_vfree\<close> on its
  native BIO (if it still has one) and \<open>Py_DECREF\<close> on the object; \<open>SSL_free\<close> on the
  engine state, if there is one, which frees the internal BIOs with it; \<open>Py_DECREF\<close>
  on the context object, if there is one; and \<open>tp_free\<close>.
\<close>

theorem dealloc_releases_in_order:
  assumes "pointers_valid self w"
  shows "(case nassl_SSL_dealloc self w of
            Inl e \<Rightarrow> False
          | Inr w' \<Rightarrow>
              released w' =
                released w
                @ (case networkBio_Object self of
                     None \<Rightarrow> []
                   | Some p \<Rightarrow>
                       (case bio (the (bio_objects w p)) of None \<Rightarrow> [] | Some b \<Rightarrow> [BIO_vfree b])
                       @ [Py_DECREF_BIO p])
                @ (case ssl self of None \<Rightarrow> [] | Some s \<Rightarrow> [SSL_free (rbio s) (wbio s)])
                @ (case sslCtx_Object self of None \<Rightarrow> [] | Some c \<Rightarrow> [Py_DECREF_CTX c])
                @ [Tp_free])"
proof -
  from dealloc_network_bio_result [OF assms] obtain w1
    where w1: "dealloc_network_bio self w = Inr w1"
      and r1: "released w1 = released w @ released_for_network_bio self w"
      and c1: "ctx_objects w1 = ctx_objects w"
    by blast
  have net: "released_for_network_bio self w =
               (case networkBio_Object self of
                  None \<Rightarrow> []
                | Some p \<Rightarrow>
                    (case bio (the (bio_objects w p)) of None \<Rightarrow> [] | Some b \<Rightarrow> [BIO_vfree b])
                    @ [Py_DECREF_BIO p])"
    using assms
    by (auto simp: released_for_network_bio_def pointers_valid_def split: option.splits)
  show ?thesis
  proof (cases "sslCtx_Object self")
    case None
    then show ?thesis
      unfolding nassl_SSL_dealloc_def w1 net [symmetric]
      by (cases "ssl self") (simp_all add: r1 Let_def)
  next
    case (Some c)
    with assms obtain ctx where "ctx_objects w c = Some ctx"
      by (auto simp: pointers_valid_def)
    with Some show ?thesis
      unfolding nassl_SSL_dealloc_def w1 net [symmetric]
      by (cases "ssl self") (simp_all add: r1 c1 Let_def Py_DECREF_CTX_Object_def)
  qed
qed

lemma pointers_valid_example [simp]: "pointers_valid example_conn example_world"
  by (simp add: pointers_valid_def example_conn_def example_world_def)

theorem dealloc_releases_in_order_witness:
  "(case nassl_SSL_dealloc example_conn example_world of
      Inl e \<Rightarrow> False
    | Inr w' \<Rightarrow>
        released w' =
          [BIO_vfree 11, Py_DECREF_BIO 20, SSL_free (Some 10) (Some 10), Py_DECREF_CTX 30,
           Tp_free]) \<and>
   (case nassl_SSL_dealloc \<lparr>ssl = None, sslCtx_Object = None, networkBio_Object = None\<rparr>
           example_world of
      Inl e \<Rightarrow> False
    | Inr w' \<Rightarrow> released w' = [Tp_free])"
proof -
  have empty: "pointers_valid \<lparr>ssl = None, sslCtx_Object = None, networkBio_Object = None\<rparr>
                 example_world"
    by (simp add: pointers_valid_def)
  have full: "released example_world
                @ (case networkBio_Object example_conn of
                     None \<Rightarrow> []
                   | Some p \<Rightarrow>
                       (case bio (the (bio_objects example_world p)) of
                          None \<Rightarrow> [] | Some b \<Rightarrow> [BIO_vfree b])
                       @ [Py_DECREF_BIO p])
                @ (case ssl example_conn of None \<Rightarrow> [] | Some s \<Rightarrow> [SSL_free (rbio s) (wbio s)])
                @ (case sslCtx_Object example_conn of None \<Rightarrow> [] | Some c \<Rightarrow> [Py_DECREF_CTX c])
                @ [Tp_free] =
              [BIO_vfree 11, Py_DECREF_BIO 20, SSL_free (Some 10) (Some 10), Py_DECREF_CTX 30,
               Tp_free]"
    by (simp add: example_conn_def example_world_def example_ssl_def)
  have none: "released example_world = []"
    by (simp add: example_world_def)
  from dealloc_releases_in_order [OF pointers_valid_example]
       dealloc_releases_in_order [OF empty]
  show ?thesis
    unfolding full by (simp add: none split: sum.splits)
qed

text \<open>
  The destructor runs on the object as built so far on each error path of
  \<open>nassl_SSL_new\<close>; none of these paths faults.
\<close>

lemma nassl_SSL_new_does_not_fault:
  assumes "\<forall>p. args = [SSL_CTX_Object p] \<longrightarrow> ctx_objects w p \<noteq> None"
  shows "\<forall>f. fst (nassl_SSL_new args w) \<noteq> Inl (Fault f)"
proof -
  let ?empty = "\<lparr>ssl = None, sslCtx_Object = None, networkBio_Object = None\<rparr>"
  have d: "nassl_SSL_dealloc ?empty v = Inr (v\<lparr>released := released v @ [Tp_free]\<rparr>)" for v
    by (simp add: nassl_SSL_dealloc_def dealloc_network_bio_def)
  have a: "ctx_objects (snd (allocate w)) = ctx_objects w"
    by (simp add: allocate_def split: list.splits)
  show ?thesis
  proof (cases "PyArg_ParseTuple_SSL_CTX args")
    case (Inl e)
    then have "e = TypeError"
      by (cases args rule: PyArg_ParseTuple_SSL_CTX.cases) simp_all
    with Inl show ?thesis
      by (simp add: nassl_SSL_new_def d Let_def split: prod.splits bool.splits)
  next
    case (Inr p)
    then have "args = [SSL_CTX_Object p]"
      by (cases args rule: PyArg_ParseTuple_SSL_CTX.cases) simp_all
    with assms obtain ctx where "ctx_objects w p = Some ctx"
      by auto
    with Inr a show ?thesis
      by (auto simp: nassl_SSL_new_def d Let_def Py_INCREF_CTX_def SSL_new_def
            split: prod.splits bool.splits option.splits)
  qed
qed

text \<open>The connections that \<open>nassl_SSL_new\<close> returns have an engine state and a context.\<close>

lemma nassl_SSL_new_constructed:
  assumes "nassl_SSL_new args w = (Inr self, w')"
  shows "ssl self \<noteq> None \<and> sslCtx_Object self \<noteq> None \<and> networkBio_Object self = None"
  using assms
  by (auto simp: nassl_SSL_new_def Let_def
        split: prod.splits bool.splits sum.splits option.splits)

subsection \<open>The peer's certificate\<close>

lemma X509_free_other: "b \<noteq> a \<Longrightarrow> x509_store (X509_free a w) b = x509_store w b"
  by (simp add: X509_free_def split: option.splits)

lemma X509_free_same:
  "x509_store w a = Some c \<Longrightarrow> 1 < references c \<Longrightarrow>
     x509_store (X509_free a w) a = Some (c\<lparr>references := references c - 1\<rparr>)"
  by (simp add: X509_free_def)

lemma fold_X509_free_keeps:
  "x509_store w a = Some c \<Longrightarrow> count_list chain a < references c \<Longrightarrow>
     x509_store (fold X509_free chain w) a =
       Some (c\<lparr>references := references c - count_list chain a\<rparr>)"
proof (induction chain arbitrary: w c)
  case Nil
  then show ?case by simp
next
  case (Cons x chain)
  show ?case
  proof (cases "x = a")
    case True
    with Cons.prems have "x509_store (X509_free x w) a = Some (c\<lparr>references := references c - 1\<rparr>)"
      by (simp add: X509_free_same)
    from Cons.IH [OF this] Cons.prems True show ?thesis
      by simp
  next
    case False
    with Cons.prems have "x509_store (X509_free x w) a = Some c"
      by (simp add: X509_free_other)
    from Cons.IH [OF this] Cons.prems False show ?thesis
      by simp
  qed
qed

lemma SSL_free_engine_keeps:
  assumes "x509_store w a = Some c" and "engine_holds s a < references c"
  shows "x509_store (SSL_free_engine (Some s) w) a =
           Some (c\<lparr>references := references c - engine_holds s a\<rparr>)"
proof -
  let ?w1 = "case peer s of None \<Rightarrow> w | Some p \<Rightarrow> X509_free p w"
  let ?k = "if peer s = Some a then 1 else 0 :: nat"
  have w1: "x509_store ?w1 a = Some (c\<lparr>references := references c - ?k\<rparr>)"
    using assms
    by (auto simp: engine_holds_def X509_free_same X509_free_other split: option.splits)
  show ?thesis
  proof (cases "peer_chain s")
    case None
    with w1 show ?thesis
      by (simp add: SSL_free_engine_def engine_holds_def Let_def)
  next
    case (Some chain)
    with assms(2) have "count_list chain a < references (c\<lparr>references := references c - ?k\<rparr>)"
      by (simp add: engine_holds_def split: if_splits)
    from fold_X509_free_keeps [OF w1 this] Some show ?thesis
      by (simp add: SSL_free_engine_def engine_holds_def Let_def)
  qed
qed

lemma Py_DECREF_CTX_Object_store:
  "Py_DECREF_CTX_Object p w = Inr w' \<Longrightarrow> x509_store w' = x509_store w"
  by (auto simp: Py_DECREF_CTX_Object_def split: option.splits)

lemma dealloc_keeps_certificate:
  assumes "pointers_valid self w" and "x509_store w a = Some c"
    and "\<forall>s. ssl self = Some s \<longrightarrow> engine_holds s a < references c"
  shows "(case nassl_SSL_dealloc self w of
            Inl e \<Rightarrow> False
          | Inr w' \<Rightarrow> map_option der (x509_store w' a) = Some (der c))"
proof -
  from dealloc_network_bio_result [OF assms(1)] obtain w1
    where w1: "dealloc_network_bio self w = Inr w1"
      and c1: "ctx_objects w1 = ctx_objects w" and s1: "x509_store w1 = x509_store w"
    by blast
  let ?w2 = "if ssl self \<noteq> None then SSL_free_engine (ssl self) w1 else w1"
  have w2: "map_option der (x509_store ?w2 a) = Some (der c)"
    using assms(2,3) s1 by (cases "ssl self") (simp_all add: SSL_free_engine_keeps)
  have c2: "ctx_objects ?w2 = ctx_objects w"
    using c1 by simp
  show ?thesis
  proof (cases "sslCtx_Object self")
    case None
    with w1 w2 show ?thesis
      by (simp add: nassl_SSL_dealloc_def Let_def)
  next
    case (Some p)
    with assms(1) obtain ctx where "ctx_objects w p = Some ctx"
      by (auto simp: pointers_valid_def)
    with Some w1 w2 c2 show ?thesis
      by (simp add: nassl_SSL_dealloc_def Let_def Py_DECREF_CTX_Object_def)
  qed
qed


lemma pointers_valid_same_objects:
  "bio_objects w' = bio_objects w \<Longrightarrow> ctx_objects w' = ctx_objects w \<Longrightarrow>
     pointers_valid self w' = pointers_valid self w"
  by (simp add: pointers_valid_def cong: option.case_cong)

lemma X509_up_ref_frame [simp]:
  "released (X509_up_ref a w) = released w"
  "bio_objects (X509_up_ref a w) = bio_objects w"
  "ctx_objects (X509_up_ref a w) = ctx_objects w"
  "alloc_outcomes (X509_up_ref a w) = alloc_outcomes w"
  "next_addr (X509_up_ref a w) = next_addr w"
  by (simp_all add: X509_up_ref_def split: option.splits)

text \<open>
  Claim C7: \<open>get_peer_certificate\<close> returns \<open>None\<close> exactly when the engine reports no
  peer certificate (an anonymous cipher was negotiated). Otherwise it returns an X509
  object for the peer's certificate, and the reference the engine has added for the
  caller keeps the certificate alive, with the same encoding, after the connection has
  been destroyed.
\<close>

theorem get_peer_certificate_owned:
  assumes "ssl self = Some s" and "alloc_outcomes w = []"
    and "certificates_valid s w" and "pointers_valid self w"
  shows "(fst (nassl_SSL_get_peer_certificate self w) = Inr Py_None \<longleftrightarrow> peer s = None) \<and>
         (\<forall>a. peer s = Some a \<longrightarrow>
            fst (nassl_SSL_get_peer_certificate self w) = Inr (X509_Object a) \<and>
            x509_store w a \<noteq> None \<and>
            (case nassl_SSL_dealloc self (snd (nassl_SSL_get_peer_certificate self w)) of
               Inl e \<Rightarrow> False
             | Inr w' \<Rightarrow> map_option der (x509_store w' a) = map_option der (x509_store w a)))"
proof (cases "peer s")
  case None
  with assms(1,2) show ?thesis
    by (simp add: nassl_SSL_get_peer_certificate_def SSL_get_peer_certificate_def)
next
  case (Some a)
  then have "0 < engine_holds s a"
    by (simp add: engine_holds_def)
  with assms(3) have "case x509_store w a of
                        None \<Rightarrow> False | Some c \<Rightarrow> engine_holds s a \<le> references c"
    unfolding certificates_valid_def by blast
  then obtain c where c: "x509_store w a = Some c" "engine_holds s a \<le> references c"
    by (cases "x509_store w a") simp_all
  let ?w1 = "X509_up_ref a w"
  have res: "nassl_SSL_get_peer_certificate self w = (Inr (X509_Object a), ?w1)"
    using assms(1,2) Some c
    by (simp add: nassl_SSL_get_peer_certificate_def SSL_get_peer_certificate_def
          X509_up_ref_def)
  have up: "x509_store ?w1 a = Some (c\<lparr>references := references c + 1\<rparr>)"
    using c by (simp add: X509_up_ref_def)
  have valid: "pointers_valid self ?w1"
    using assms(4) pointers_valid_same_objects [of ?w1 w self] by simp
  have more: "\<forall>s'. ssl self = Some s' \<longrightarrow>
                engine_holds s' a < references (c\<lparr>references := references c + 1\<rparr>)"
    using assms(1) c by simp
  from dealloc_keeps_certificate [OF valid up more] Some c show ?thesis
    by (simp add: res split: sum.splits)
qed

lemma engine_holds_example:
  "engine_holds example_ssl a = (if a = 100 then 2 else if a = 101 then 1 else 0)"
  by (simp add: engine_holds_def example_ssl_def)

lemma certificates_valid_example [simp]: "certificates_valid example_ssl example_world"
  unfolding certificates_valid_def engine_holds_example
  by (simp add: example_world_def)

theorem get_peer_certificate_owned_witness:
  "fst (nassl_SSL_get_peer_certificate example_conn example_world) = Inr (X509_Object 100) \<and>
   (case nassl_SSL_dealloc example_conn
           (snd (nassl_SSL_get_peer_certificate example_conn example_world)) of
      Inl e \<Rightarrow> False
    | Inr w' \<Rightarrow> map_option der (x509_store w' 100) = Some [0x30, 0x01]) \<and>
   fst (nassl_SSL_get_peer_certificate
          (example_conn\<lparr>ssl := Some (example_ssl\<lparr>peer := None\<rparr>)\<rparr>) example_world) =
     Inr Py_None"
proof -
  have peer: "peer example_ssl = Some 100"
    by (simp add: example_ssl_def)
  have der: "map_option der (x509_store example_world 100) = Some [0x30, 0x01]"
    by (simp add: example_world_def)
  let ?anon = "example_conn\<lparr>ssl := Some (example_ssl\<lparr>peer := None\<rparr>)\<rparr>"
  have anon: "ssl ?anon = Some (example_ssl\<lparr>peer := None\<rparr>)"
    by simp
  have "engine_holds (example_ssl\<lparr>peer := None\<rparr>) a =
          (if a = 100 then 1 else if a = 101 then 1 else 0)" for a
    by (simp add: engine_holds_def example_ssl_def)
  then have anon_certs: "certificates_valid (example_ssl\<lparr>peer := None\<rparr>) example_world"
    unfolding certificates_valid_def by (simp add: example_world_def)
  have anon_ptrs: "pointers_valid ?anon example_world"
    by (simp add: pointers_valid_def example_conn_def example_world_def)
  note owned = get_peer_certificate_owned
         [OF ssl_example_conn example_world_unscheduled certificates_valid_example
             pointers_valid_example]
  note anonymous = get_peer_certificate_owned
         [OF anon example_world_unscheduled anon_certs anon_ptrs]
  from owned peer
  have returned: "fst (nassl_SSL_get_peer_certificate example_conn example_world) =
                    Inr (X509_Object 100)"
    and alive: "(case nassl_SSL_dealloc example_conn
                        (snd (nassl_SSL_get_peer_certificate example_conn example_world)) of
                   Inl e \<Rightarrow> False
                 | Inr w' \<Rightarrow> map_option der (x509_store w' 100) =
                             map_option der (x509_store example_world 100))"
    by blast+
  from anonymous
  have none: "fst (nassl_SSL_get_peer_certificate ?anon example_world) = Inr Py_None"
    by simp
  from returned alive none show ?thesis
    unfolding der by (intro conjI)
qed

subsection \<open>The peer's certificate chain\<close>

lemma X509_dup_unscheduled:
  "alloc_outcomes w = [] \<Longrightarrow> x509_store w a = Some c \<Longrightarrow>
     X509_dup (Some a) w =
       (Some (next_addr w),
        w\<lparr>x509_store := (x509_store w)(next_addr w \<mapsto> c\<lparr>references := 1\<rparr>),
          next_addr := next_addr w + 1\<rparr>)"
  by (simp add: X509_dup_def)

lemma X509_dup_frame [simp]:
  "released (snd (X509_dup src w)) = released w"
  "bio_objects (snd (X509_dup src w)) = bio_objects w"
  "ctx_objects (snd (X509_dup src w)) = ctx_objects w"
  by (simp_all add: X509_dup_def allocate_def split: option.splits list.splits bool.splits)

lemma X509_dup_all_frame [simp]:
  "released (X509_dup_all chain w) = released w"
  "bio_objects (X509_dup_all chain w) = bio_objects w"
  "ctx_objects (X509_dup_all chain w) = ctx_objects w"
  by (induction chain arbitrary: w; simp)+

lemma chain_alive_Cons:
  assumes "alloc_outcomes w = []" and "chain_alive (a # rest) w"
  shows "\<exists>c. x509_store w a = Some c \<and>
           alloc_outcomes (snd (X509_dup (Some a) w)) = [] \<and>
           chain_alive rest (snd (X509_dup (Some a) w)) \<and>
           next_addr (snd (X509_dup (Some a) w)) = next_addr w + 1 \<and>
           fst (X509_dup (Some a) w) = Some (next_addr w)"
proof -
  from assms(2) obtain c where c: "x509_store w a = Some c"
    by (auto simp: chain_alive_def)
  from assms(2) have "chain_alive rest (snd (X509_dup (Some a) w))"
    by (auto simp: chain_alive_def X509_dup_unscheduled [OF assms(1) c])
  with c assms(1) show ?thesis
    by (simp add: X509_dup_unscheduled [OF assms(1) c])
qed

lemma get_peer_cert_chain_loop_copies:
  "alloc_outcomes w = [] \<Longrightarrow> chain_alive chain w \<Longrightarrow>
     get_peer_cert_chain_loop chain acc w =
       (Inr (PyList (acc @ map X509_Object [next_addr w ..< next_addr w + length chain])),
        X509_dup_all chain w)"
proof (induction chain arbitrary: w acc)
  case Nil
  then show ?case by simp
next
  case (Cons a rest)
  from chain_alive_Cons [OF Cons.prems] obtain c where
    c: "x509_store w a = Some c"
    and al: "alloc_outcomes (snd (X509_dup (Some a) w)) = []"
    and ch: "chain_alive rest (snd (X509_dup (Some a) w))"
    and nx: "next_addr (snd (X509_dup (Some a) w)) = next_addr w + 1"
    and dup: "fst (X509_dup (Some a) w) = Some (next_addr w)"
    by blast
  have range: "[next_addr w ..< next_addr w + length (a # rest)] =
                 next_addr w # [next_addr w + 1 ..< next_addr w + 1 + length rest]"
    by (subst upt_rec) simp
  from Cons.IH [OF al ch, of "acc @ [X509_Object (next_addr w)]"] dup al
  show ?case
    unfolding range by (simp add: nx case_prod_beta)
qed

lemma copy_chain_loop_copies:
  "alloc_outcomes w = [] \<Longrightarrow> chain_alive chain w \<Longrightarrow>
     copy_chain_loop chain acc w =
       (acc @ map Some [next_addr w ..< next_addr w + length chain], X509_dup_all chain w)"
proof (induction chain arbitrary: w acc)
  case Nil
  then show ?case by simp
next
  case (Cons a rest)
  from chain_alive_Cons [OF Cons.prems] obtain c where
    c: "x509_store w a = Some c"
    and al: "alloc_outcomes (snd (X509_dup (Some a) w)) = []"
    and ch: "chain_alive rest (snd (X509_dup (Some a) w))"
    and nx: "next_addr (snd (X509_dup (Some a) w)) = next_addr w + 1"
    and dup: "fst (X509_dup (Some a) w) = Some (next_addr w)"
    by blast
  have range: "[next_addr w ..< next_addr w + length (a # rest)] =
                 next_addr w # [next_addr w + 1 ..< next_addr w + 1 + length rest]"
    by (subst upt_rec) simp
  from Cons.IH [OF al ch, of "acc @ [Some (next_addr w)]"] dup al
  show ?case
    unfolding range by (simp add: nx sk_X509_push_def case_prod_beta)
qed

lemma X509_dup_all_below:
  "a < next_addr w \<Longrightarrow> x509_store (X509_dup_all chain w) a = x509_store w a"
proof (induction chain arbitrary: w)
  case Nil
  then show ?case by simp
next
  case (Cons x rest)
  have step: "a < next_addr (snd (X509_dup (Some x) w)) \<and>
              x509_store (snd (X509_dup (Some x) w)) a = x509_store w a"
    using Cons.prems
    by (auto simp: X509_dup_def allocate_def split: option.splits list.splits bool.splits)
  with Cons.IH [of "snd (X509_dup (Some x) w)"] show ?case
    by simp
qed

lemma X509_dup_all_copies:
  assumes "alloc_outcomes w = []" and "chain_alive chain w" and "store_ok w"
    and "i < length chain"
  shows "x509_store (X509_dup_all chain w) (next_addr w + i) =
           Some ((the (x509_store w (chain ! i)))\<lparr>references := 1\<rparr>)"
  using assms
proof (induction chain arbitrary: w i)
  case Nil
  then show ?case by simp
next
  case (Cons a rest)
  from chain_alive_Cons [OF Cons.prems(1,2)] obtain c where
    c: "x509_store w a = Some c"
    and al: "alloc_outcomes (snd (X509_dup (Some a) w)) = []"
    and ch: "chain_alive rest (snd (X509_dup (Some a) w))"
    and nx: "next_addr (snd (X509_dup (Some a) w)) = next_addr w + 1"
    by blast
  let ?w1 = "snd (X509_dup (Some a) w)"
  have w1: "?w1 = w\<lparr>x509_store := (x509_store w)(next_addr w \<mapsto> c\<lparr>references := 1\<rparr>),
                      next_addr := next_addr w + 1\<rparr>"
    by (simp add: X509_dup_unscheduled [OF Cons.prems(1) c])
  have ok1: "store_ok ?w1"
    using Cons.prems(3) by (auto simp: w1 store_ok_def less_Suc_eq)
  show ?case
  proof (cases i)
    case 0
    have "x509_store (X509_dup_all rest ?w1) (next_addr w) = x509_store ?w1 (next_addr w)"
      by (rule X509_dup_all_below) (simp add: nx)
    with 0 c show ?thesis
      by (simp add: w1)
  next
    case (Suc j)
    with Cons.prems(4) have j: "j < length rest"
      by simp
    from Cons.prems(2) j have "x509_store w (rest ! j) \<noteq> None"
      by (simp add: chain_alive_def)
    with Cons.prems(3) have "rest ! j \<noteq> next_addr w"
      by (auto simp: store_ok_def)
    then have same: "x509_store ?w1 (rest ! j) = x509_store w (rest ! j)"
      by (simp add: w1)
    from Cons.IH [OF al ch ok1 j] Suc same show ?thesis
      by (simp add: nx)
  qed
qed

lemma engine_holds_fresh:
  assumes "certificates_valid s w" and "store_ok w" and "next_addr w \<le> a"
  shows "engine_holds s a = 0"
proof (rule ccontr)
  assume "engine_holds s a \<noteq> 0"
  with assms(1) have "x509_store w a \<noteq> None"
    by (auto simp: certificates_valid_def split: option.splits)
  with assms(2,3) show False
    by (auto simp: store_ok_def)
qed

lemma chain_alive_valid:
  assumes "certificates_valid s w" and "SSL_get_peer_cert_chain s = Some chain"
  shows "chain_alive chain w"
  unfolding chain_alive_def
proof
  fix a assume "a \<in> set chain"
  then have "count_list chain a \<noteq> 0"
    by (simp add: count_list_0_iff)
  then have "0 < count_list chain a"
    by simp
  with assms(2) have "0 < engine_holds s a"
    by (simp add: engine_holds_def SSL_get_peer_cert_chain_def)
  with assms(1) show "x509_store w a \<noteq> None"
    by (auto simp: certificates_valid_def split: option.splits)
qed

lemma copies_outlive_connection:
  assumes "alloc_outcomes w = []" and "certificates_valid s w" and "store_ok w"
    and "pointers_valid self w" and "ssl self = Some s"
    and "SSL_get_peer_cert_chain s = Some chain" and "i < length chain"
  shows "x509_store w (next_addr w + i) = None \<and>
         x509_store w (chain ! i) \<noteq> None \<and>
         map_option der (x509_store (X509_dup_all chain w) (next_addr w + i)) =
           map_option der (x509_store w (chain ! i)) \<and>
         (case nassl_SSL_dealloc self (X509_dup_all chain w) of
            Inl e \<Rightarrow> False
          | Inr w' \<Rightarrow> map_option der (x509_store w' (next_addr w + i)) =
                      map_option der (x509_store w (chain ! i)))"
proof -
  have alive: "chain_alive chain w"
    by (rule chain_alive_valid [OF assms(2,6)])
  with assms(7) have "x509_store w (chain ! i) \<noteq> None"
    by (simp add: chain_alive_def)
  then obtain c where c: "x509_store w (chain ! i) = Some c"
    by blast
  have fresh: "x509_store w (next_addr w + i) = None"
    using assms(3) by (auto simp: store_ok_def)
  have copy: "x509_store (X509_dup_all chain w) (next_addr w + i) = Some (c\<lparr>references := 1\<rparr>)"
    using X509_dup_all_copies [OF assms(1) alive assms(3,7)] c by simp
  have valid: "pointers_valid self (X509_dup_all chain w)"
    using assms(4) pointers_valid_same_objects [of "X509_dup_all chain w" w self] by simp
  have "engine_holds s (next_addr w + i) = 0"
    by (rule engine_holds_fresh [OF assms(2,3)]) simp
  with assms(5)
  have unheld: "\<forall>s'. ssl self = Some s' \<longrightarrow>
                  engine_holds s' (next_addr w + i) < references (c\<lparr>references := 1\<rparr>)"
    by simp
  from dealloc_keeps_certificate [OF valid copy unheld] c fresh copy show ?thesis
    by (simp split: sum.splits)
qed

text \<open>
  Claim C3, as stated, does not hold in the kind of the failure: when the engine
  reports no chain the method raises a \<open>ValueError\<close> with a fixed message, the
  exception class of an invalid argument, and not the engine's diagnostic.
\<close>

theorem get_peer_cert_chain_failure_is_ValueError:
  "SSL_get_peer_cert_chain (example_ssl\<lparr>peer_chain := None\<rparr>) = None \<and>
   nassl_SSL_get_peer_cert_chain
       (example_conn\<lparr>ssl := Some (example_ssl\<lparr>peer_chain := None\<rparr>)\<rparr>) example_world =
     (Inl (ValueError ''Error getting the peer's certificate chain.''), example_world) \<and>
   \<not> spec_ProtocolError (ValueError ''Error getting the peer's certificate chain.'')"
  by (simp add: nassl_SSL_get_peer_cert_chain_def SSL_get_peer_cert_chain_def
        spec_ProtocolError_def)

text \<open>
  Claim C3, amended: when the engine reports no chain, \<open>get_peer_cert_chain\<close> fails
  with the \<open>ValueError\<close> "Error getting the peer's certificate chain."; an empty chain
  is not an error and gives the empty list. For a chain it returns one X509 object for
  each entry, in the order of the engine's stack (the leaf first). Each object holds a
  certificate of its own: its address was not in use before, its encoding is that of
  the entry it was copied from, and it is still in the store, unchanged, after the
  connection has been destroyed.
\<close>

theorem get_peer_cert_chain_duplicates:
  assumes "ssl self = Some s" and "alloc_outcomes w = []"
    and "certificates_valid s w" and "store_ok w" and "pointers_valid self w"
  shows "(SSL_get_peer_cert_chain s = None \<longrightarrow>
            nassl_SSL_get_peer_cert_chain self w =
              (Inl (ValueError ''Error getting the peer's certificate chain.''), w)) \<and>
         (SSL_get_peer_cert_chain s = Some [] \<longrightarrow>
            nassl_SSL_get_peer_cert_chain self w = (Inr (PyList []), w)) \<and>
         (\<forall>chain. SSL_get_peer_cert_chain s = Some chain \<longrightarrow>
            fst (nassl_SSL_get_peer_cert_chain self w) =
              Inr (PyList (map X509_Object [next_addr w ..< next_addr w + length chain])) \<and>
            (\<forall>i < length chain.
               x509_store w (next_addr w + i) = None \<and>
               x509_store w (chain ! i) \<noteq> None \<and>
               map_option der
                 (x509_store (snd (nassl_SSL_get_peer_cert_chain self w)) (next_addr w + i)) =
                 map_option der (x509_store w (chain ! i)) \<and>
               (case nassl_SSL_dealloc self (snd (nassl_SSL_get_peer_cert_chain self w)) of
                  Inl e \<Rightarrow> False
                | Inr w' \<Rightarrow> map_option der (x509_store w' (next_addr w + i)) =
                            map_option der (x509_store w (chain ! i)))))"
proof (intro conjI impI allI)
  assume "SSL_get_peer_cert_chain s = None"
  with assms(1) show "nassl_SSL_get_peer_cert_chain self w =
                        (Inl (ValueError ''Error getting the peer's certificate chain.''), w)"
    by (simp add: nassl_SSL_get_peer_cert_chain_def)
next
  assume "SSL_get_peer_cert_chain s = Some []"
  with assms(1,2) show "nassl_SSL_get_peer_cert_chain self w = (Inr (PyList []), w)"
    by (simp add: nassl_SSL_get_peer_cert_chain_def)
next
  fix chain assume chain: "SSL_get_peer_cert_chain s = Some chain"
  have res: "nassl_SSL_get_peer_cert_chain self w =
               (Inr (PyList (map X509_Object [next_addr w ..< next_addr w + length chain])),
                X509_dup_all chain w)"
    using assms(1,2) chain
      get_peer_cert_chain_loop_copies [OF assms(2) chain_alive_valid [OF assms(3) chain], of "[]"]
    by (simp add: nassl_SSL_get_peer_cert_chain_def)
  show "fst (nassl_SSL_get_peer_cert_chain self w) =
          Inr (PyList (map X509_Object [next_addr w ..< next_addr w + length chain]))"
    by (simp add: res)
  fix i assume i: "i < length chain"
  note copies_outlive_connection [OF assms(2,3,4,5,1) chain i]
  then show "x509_store w (next_addr w + i) = None"
    and "x509_store w (chain ! i) \<noteq> None"
    and "map_option der
           (x509_store (snd (nassl_SSL_get_peer_cert_chain self w)) (next_addr w + i)) =
           map_option der (x509_store w (chain ! i))"
    and "(case nassl_SSL_dealloc self (snd (nassl_SSL_get_peer_cert_chain self w)) of
            Inl e \<Rightarrow> False
          | Inr w' \<Rightarrow> map_option der (x509_store w' (next_addr w + i)) =
                      map_option der (x509_store w (chain ! i)))"
    unfolding res snd_conv by blast+
qed


lemma next_addr_example [simp]: "next_addr example_world = 200"
  by (simp add: example_world_def)

lemma store_ok_example [simp]: "store_ok example_world"
  by (simp add: store_ok_def example_world_def)

lemma chain_example [simp]: "SSL_get_peer_cert_chain example_ssl = Some [100, 101]"
  by (simp add: SSL_get_peer_cert_chain_def example_ssl_def)

lemma no_chain_valid:
  "certificates_valid (example_ssl\<lparr>peer_chain := None\<rparr>) example_world \<and>
   pointers_valid (example_conn\<lparr>ssl := Some (example_ssl\<lparr>peer_chain := None\<rparr>)\<rparr>) example_world"
proof -
  have "engine_holds (example_ssl\<lparr>peer_chain := None\<rparr>) a = (if a = 100 then 1 else 0)" for a
    by (simp add: engine_holds_def example_ssl_def)
  then have "certificates_valid (example_ssl\<lparr>peer_chain := None\<rparr>) example_world"
    unfolding certificates_valid_def by (simp add: example_world_def)
  then show ?thesis
    by (simp add: pointers_valid_def example_conn_def example_world_def)
qed

theorem get_peer_cert_chain_duplicates_witness:
  "nassl_SSL_get_peer_cert_chain
       (example_conn\<lparr>ssl := Some (example_ssl\<lparr>peer_chain := None\<rparr>)\<rparr>) example_world =
     (Inl (ValueError ''Error getting the peer's certificate chain.''), example_world) \<and>
   fst (nassl_SSL_get_peer_cert_chain example_conn example_world) =
     Inr (PyList [X509_Object 200, X509_Object 201]) \<and>
   (case nassl_SSL_dealloc example_conn
           (snd (nassl_SSL_get_peer_cert_chain example_conn example_world)) of
      Inl e \<Rightarrow> False
    | Inr w' \<Rightarrow> map_option der (x509_store w' 201) = Some [0x30, 0x02])"
proof -
  let ?unchained = "example_conn\<lparr>ssl := Some (example_ssl\<lparr>peer_chain := None\<rparr>)\<rparr>"
  have unchained: "ssl ?unchained = Some (example_ssl\<lparr>peer_chain := None\<rparr>)"
    by simp
  have none: "SSL_get_peer_cert_chain (example_ssl\<lparr>peer_chain := None\<rparr>) = None"
    by (simp add: SSL_get_peer_cert_chain_def)
  from get_peer_cert_chain_duplicates
         [OF unchained example_world_unscheduled conjunct1 [OF no_chain_valid] store_ok_example
             conjunct2 [OF no_chain_valid]] none
  have failed: "nassl_SSL_get_peer_cert_chain ?unchained example_world =
                  (Inl (ValueError ''Error getting the peer's certificate chain.''), example_world)"
    by blast
  note chained = get_peer_cert_chain_duplicates
         [OF ssl_example_conn example_world_unscheduled certificates_valid_example
             store_ok_example pointers_valid_example]
  from chained chain_example
  have items: "fst (nassl_SSL_get_peer_cert_chain example_conn example_world) =
                 Inr (PyList (map X509_Object
                   [next_addr example_world ..< next_addr example_world + length [100, 101 :: nat]]))"
    by blast
  from chained chain_example
  have "\<forall>i < length [100, 101 :: nat].
          (case nassl_SSL_dealloc example_conn
                  (snd (nassl_SSL_get_peer_cert_chain example_conn example_world)) of
             Inl e \<Rightarrow> False
           | Inr w' \<Rightarrow> map_option der (x509_store w' (next_addr example_world + i)) =
                       map_option der (x509_store example_world ([100, 101] ! i)))"
    by blast
  then have "(case nassl_SSL_dealloc example_conn
                  (snd (nassl_SSL_get_peer_cert_chain example_conn example_world)) of
             Inl e \<Rightarrow> False
           | Inr w' \<Rightarrow> map_option der (x509_store w' (next_addr example_world + 1)) =
                       map_option der (x509_store example_world ([100, 101] ! 1)))"
    by simp
  moreover have "map_option der (x509_store example_world ([100, 101] ! 1)) = Some [0x30, 0x02]"
    by (simp add: example_world_def)
  ultimately have alive: "(case nassl_SSL_dealloc example_conn
                  (snd (nassl_SSL_get_peer_cert_chain example_conn example_world)) of
             Inl e \<Rightarrow> False
           | Inr w' \<Rightarrow> map_option der (x509_store w' 201) = Some [0x30, 0x02])"
    by (simp split: sum.splits)
  from failed items alive show ?thesis
    by (simp add: upt_rec)
qed

subsection \<open>The stapled OCSP response\<close>

lemma d2i_OCSP_RESPONSE_unscheduled:
  "alloc_outcomes w = [] \<Longrightarrow>
     d2i_OCSP_RESPONSE parse buf (int (length buf)) w = (parse buf, w)"
  by (simp add: d2i_OCSP_RESPONSE_def split: option.splits)

lemma get_tlsext_status_ocsp_resp_result:
  assumes "ssl self = Some s" and "alloc_outcomes w = []" and "certificates_valid s w"
  shows "nassl_SSL_get_tlsext_status_ocsp_resp parse self w =
           (case tlsext_ocsp_resp s of
              None \<Rightarrow> (Inr Py_None, w)
            | Some buf \<Rightarrow>
                (case parse buf of
                   None \<Rightarrow>
                     (Inl (ValueError ''Error parsing the OCSP response. Should not happen ?''), w)
                 | Some resp \<Rightarrow>
                     (case SSL_get_peer_cert_chain s of
                        None \<Rightarrow>
                          (Inl (ValueError ''Error getting the peer's certificate chain.''), w)
                      | Some chain \<Rightarrow>
                          (Inr (OCSP_RESPONSE_Object resp
                                  (map Some [next_addr w ..< next_addr w + length chain])),
                           X509_dup_all chain w))))"
proof (cases "tlsext_ocsp_resp s")
  case None
  with assms(1) show ?thesis
    by (simp add: nassl_SSL_get_tlsext_status_ocsp_resp_def SSL_get_tlsext_status_ocsp_resp_def)
next
  case buf: (Some buf)
  show ?thesis
  proof (cases "parse buf")
    case None
    with buf assms(1,2) show ?thesis
      by (simp add: nassl_SSL_get_tlsext_status_ocsp_resp_def
            SSL_get_tlsext_status_ocsp_resp_def d2i_OCSP_RESPONSE_unscheduled)
  next
    case resp: (Some resp)
    show ?thesis
    proof (cases "SSL_get_peer_cert_chain s")
      case None
      with buf resp assms(1,2) show ?thesis
        by (simp add: nassl_SSL_get_tlsext_status_ocsp_resp_def
              SSL_get_tlsext_status_ocsp_resp_def d2i_OCSP_RESPONSE_unscheduled)
    next
      case (Some chain)
      have same: "alloc_outcomes (X509_dup_all chain w) = []"
        using assms(2) chain_alive_valid [OF assms(3) Some]
      proof (induction chain arbitrary: w)
        case Nil
        then show ?case by simp
      next
        case (Cons a rest)
        from chain_alive_Cons [OF Cons.prems] Cons.IH show ?case
          by auto
      qed
      from Some buf resp assms(1,2) same
        copy_chain_loop_copies [OF assms(2) chain_alive_valid [OF assms(3) Some], of "[]"]
      show ?thesis
        by (simp add: nassl_SSL_get_tlsext_status_ocsp_resp_def
              SSL_get_tlsext_status_ocsp_resp_def d2i_OCSP_RESPONSE_unscheduled)
    qed
  qed
qed

text \<open>
  Claim C5, amended: \<open>get_tlsext_status_ocsp_resp\<close> returns \<open>None\<close> exactly when the
  peer sent no OCSP data. When the data is there and does not parse, it fails with the
  \<open>ValueError\<close> "Error parsing the OCSP response."; when it parses and the engine
  reports no peer chain, it fails with the \<open>ValueError\<close> "Error getting the peer's
  certificate chain."; when it parses and there is a chain, it returns the parsed
  response together with a copy of every certificate of the chain, in order, each copy
  a certificate of its own that is still in the store, unchanged, after the connection
  has been destroyed.
\<close>

theorem ocsp_response_with_chain_snapshot:
  assumes "ssl self = Some s" and "alloc_outcomes w = []"
    and "certificates_valid s w" and "store_ok w" and "pointers_valid self w"
  shows "(fst (nassl_SSL_get_tlsext_status_ocsp_resp parse self w) = Inr Py_None \<longleftrightarrow>
            tlsext_ocsp_resp s = None) \<and>
         (\<forall>buf. tlsext_ocsp_resp s = Some buf \<longrightarrow>
            (parse buf = None \<longrightarrow>
               nassl_SSL_get_tlsext_status_ocsp_resp parse self w =
                 (Inl (ValueError ''Error parsing the OCSP response. Should not happen ?''), w)) \<and>
            (\<forall>resp. parse buf = Some resp \<longrightarrow>
               (SSL_get_peer_cert_chain s = None \<longrightarrow>
                  nassl_SSL_get_tlsext_status_ocsp_resp parse self w =
                    (Inl (ValueError ''Error getting the peer's certificate chain.''), w)) \<and>
               (\<forall>chain. SSL_get_peer_cert_chain s = Some chain \<longrightarrow>
                  fst (nassl_SSL_get_tlsext_status_ocsp_resp parse self w) =
                    Inr (OCSP_RESPONSE_Object resp
                           (map Some [next_addr w ..< next_addr w + length chain])) \<and>
                  (\<forall>i < length chain.
                     x509_store w (next_addr w + i) = None \<and>
                     x509_store w (chain ! i) \<noteq> None \<and>
                     map_option der
                       (x509_store (snd (nassl_SSL_get_tlsext_status_ocsp_resp parse self w))
                          (next_addr w + i)) =
                       map_option der (x509_store w (chain ! i)) \<and>
                     (case nassl_SSL_dealloc self
                             (snd (nassl_SSL_get_tlsext_status_ocsp_resp parse self w)) of
                        Inl e \<Rightarrow> False
                      | Inr w' \<Rightarrow> map_option der (x509_store w' (next_addr w + i)) =
                                  map_option der (x509_store w (chain ! i)))))))"
proof -
  note res = get_tlsext_status_ocsp_resp_result [OF assms(1,2,3), of parse]
  have absent: "fst (nassl_SSL_get_tlsext_status_ocsp_resp parse self w) = Inr Py_None \<longleftrightarrow>
                  tlsext_ocsp_resp s = None"
    unfolding res by (simp split: option.splits)
  have present: "parse buf = None \<longrightarrow>
               nassl_SSL_get_tlsext_status_ocsp_resp parse self w =
                 (Inl (ValueError ''Error parsing the OCSP response. Should not happen ?''), w)"
    if "tlsext_ocsp_resp s = Some buf" for buf
    unfolding res using that by simp
  have unchained: "nassl_SSL_get_tlsext_status_ocsp_resp parse self w =
                    (Inl (ValueError ''Error getting the peer's certificate chain.''), w)"
    if "tlsext_ocsp_resp s = Some buf" "parse buf = Some resp" "SSL_get_peer_cert_chain s = None"
    for buf resp
    unfolding res using that by simp
  have chained: "fst (nassl_SSL_get_tlsext_status_ocsp_resp parse self w) =
                    Inr (OCSP_RESPONSE_Object resp
                           (map Some [next_addr w ..< next_addr w + length chain])) \<and>
                  (\<forall>i < length chain.
                     x509_store w (next_addr w + i) = None \<and>
                     x509_store w (chain ! i) \<noteq> None \<and>
                     map_option der
                       (x509_store (snd (nassl_SSL_get_tlsext_status_ocsp_resp parse self w))
                          (next_addr w + i)) =
                       map_option der (x509_store w (chain ! i)) \<and>
                     (case nassl_SSL_dealloc self
                             (snd (nassl_SSL_get_tlsext_status_ocsp_resp parse self w)) of
                        Inl e \<Rightarrow> False
                      | Inr w' \<Rightarrow> map_option der (x509_store w' (next_addr w + i)) =
                                  map_option der (x509_store w (chain ! i))))"
    if "tlsext_ocsp_resp s = Some buf" "parse buf = Some resp"
       "SSL_get_peer_cert_chain s = Some chain"
    for buf resp chain
  proof -
    have r: "nassl_SSL_get_tlsext_status_ocsp_resp parse self w =
               (Inr (OCSP_RESPONSE_Object resp
                       (map Some [next_addr w ..< next_addr w + length chain])),
                X509_dup_all chain w)"
      unfolding res using that by simp
    show ?thesis
      unfolding r fst_conv snd_conv
      using copies_outlive_connection [OF assms(2,3,4,5,1) that(3)] by blast
  qed
  from absent present unchained chained show ?thesis
    by blast
qed


text \<open>
  Claim C5, as stated, does not hold whenever the data is present and well-formed: in
  the example the stapled bytes parse, but the engine reports no peer chain, and the
  call returns no response; it fails.
\<close>

theorem ocsp_response_needs_peer_chain:
  "tlsext_ocsp_resp (example_ssl\<lparr>peer_chain := None\<rparr>) = Some [0x30, 0x03, 0x0A, 0x01, 0x00] \<and>
   example_parse [0x30, 0x03, 0x0A, 0x01, 0x00] = Some (OCSP_RESPONSE 0 []) \<and>
   nassl_SSL_get_tlsext_status_ocsp_resp example_parse
       (example_conn\<lparr>ssl := Some (example_ssl\<lparr>peer_chain := None\<rparr>)\<rparr>) example_world =
     (Inl (ValueError ''Error getting the peer's certificate chain.''), example_world)"
  by (simp add: nassl_SSL_get_tlsext_status_ocsp_resp_def SSL_get_tlsext_status_ocsp_resp_def
        d2i_OCSP_RESPONSE_def SSL_get_peer_cert_chain_def example_parse_def example_ssl_def)

theorem ocsp_response_with_chain_snapshot_witness:
  "fst (nassl_SSL_get_tlsext_status_ocsp_resp example_parse example_conn example_world) =
     Inr (OCSP_RESPONSE_Object (OCSP_RESPONSE 0 []) [Some 200, Some 201]) \<and>
   (case nassl_SSL_dealloc example_conn
           (snd (nassl_SSL_get_tlsext_status_ocsp_resp example_parse example_conn
                   example_world)) of
      Inl e \<Rightarrow> False
    | Inr w' \<Rightarrow> map_option der (x509_store w' 200) = Some [0x30, 0x01]) \<and>
   nassl_SSL_get_tlsext_status_ocsp_resp (\<lambda>buf. None) example_conn example_world =
     (Inl (ValueError ''Error parsing the OCSP response. Should not happen ?''), example_world)"
proof -
  have buf: "tlsext_ocsp_resp example_ssl = Some [0x30, 0x03, 0x0A, 0x01, 0x00]"
    by (simp add: example_ssl_def)
  have resp: "example_parse [0x30, 0x03, 0x0A, 0x01, 0x00] = Some (OCSP_RESPONSE 0 [])"
    by (simp add: example_parse_def)
  note parsed = ocsp_response_with_chain_snapshot
         [OF ssl_example_conn example_world_unscheduled certificates_valid_example
             store_ok_example pointers_valid_example, of example_parse]
  from parsed buf resp chain_example
  have response: "fst (nassl_SSL_get_tlsext_status_ocsp_resp example_parse example_conn
                         example_world) =
                    Inr (OCSP_RESPONSE_Object (OCSP_RESPONSE 0 [])
                           (map Some [next_addr example_world ..<
                                      next_addr example_world + length [100, 101 :: nat]]))"
    by blast
  from parsed buf resp chain_example
  have "\<forall>i < length [100, 101 :: nat].
          (case nassl_SSL_dealloc example_conn
                  (snd (nassl_SSL_get_tlsext_status_ocsp_resp example_parse example_conn
                          example_world)) of
             Inl e \<Rightarrow> False
           | Inr w' \<Rightarrow> map_option der (x509_store w' (next_addr example_world + i)) =
                       map_option der (x509_store example_world ([100, 101] ! i)))"
    by blast
  then have "(case nassl_SSL_dealloc example_conn
                  (snd (nassl_SSL_get_tlsext_status_ocsp_resp example_parse example_conn
                          example_world)) of
             Inl e \<Rightarrow> False
           | Inr w' \<Rightarrow> map_option der (x509_store w' (next_addr example_world + 0)) =
                       map_option der (x509_store example_world ([100, 101] ! 0)))"
    by blast
  moreover have "map_option der (x509_store example_world ([100, 101] ! 0)) = Some [0x30, 0x01]"
    by (simp add: example_world_def)
  ultimately have alive: "(case nassl_SSL_dealloc example_conn
                  (snd (nassl_SSL_get_tlsext_status_ocsp_resp example_parse example_conn
                          example_world)) of
             Inl e \<Rightarrow> False
           | Inr w' \<Rightarrow> map_option der (x509_store w' 200) = Some [0x30, 0x01])"
    by (simp split: sum.splits)
  from ocsp_response_with_chain_snapshot
         [OF ssl_example_conn example_world_unscheduled certificates_valid_example
             store_ok_example pointers_valid_example, of "\<lambda>buf. None"] buf
  have malformed: "nassl_SSL_get_tlsext_status_ocsp_resp (\<lambda>buf. None) example_conn
                     example_world =
                     (Inl (ValueError ''Error parsing the OCSP response. Should not happen ?''),
                      example_world)"
    by blast
  from response alive malformed show ?thesis
    by (simp add: upt_rec)
qed

subsection \<open>The network BIO\<close>

lemma quiet_refl [simp]: "quiet w w"
  by (simp add: quiet_def)


lemma quiet_same_objects:
  "released w' = released w \<Longrightarrow> ctx_objects w' = ctx_objects w \<Longrightarrow>
     bio_objects w' = bio_objects w \<Longrightarrow> quiet w w'"
  by (simp add: quiet_def)

lemma allocate_frame [simp]:
  "released (snd (allocate w)) = released w"
  "bio_objects (snd (allocate w)) = bio_objects w"
  "ctx_objects (snd (allocate w)) = ctx_objects w"
  by (simp_all add: allocate_def split: list.splits)




lemma Py_BuildValue_quiet [simp]:
  "quiet w (snd (Py_BuildValue_I v w))" "quiet w (snd (Py_BuildValue_H v16 w))"
  by (simp_all add: Py_BuildValue_I_def Py_BuildValue_H_def quiet_same_objects case_prod_beta
        split: bool.splits)



lemma d2i_OCSP_RESPONSE_quiet [simp]: "quiet w (snd (d2i_OCSP_RESPONSE parse buf len w))"
  by (simp add: d2i_OCSP_RESPONSE_def quiet_same_objects case_prod_beta
        split: option.splits bool.splits)

















lemma times_freed_append [simp]:
  "times_freed b (xs @ ys) = times_freed b xs + times_freed b ys"
  by (simp add: times_freed_def)

lemma times_freed_simps [simp]:
  "times_freed b [] = 0"
  "times_freed b (r # rs) = frees_bio b r + times_freed b rs"
  by (simp_all add: times_freed_def)


















text \<open>
  The proviso on the internal BIO is needed. Here the BIO object at 20 (native BIO 11)
  is first made the internal BIO of the connection and then handed to
  \<open>set_network_bio_to_free_when_dealloc\<close>. The engine frees the native BIO 11 when
  \<open>set_bio\<close> replaces it, and \<open>nassl_SSL_dealloc\<close> frees it a second time.
\<close>

lemma internal_bio_adopted_is_freed_twice:
  "(case run_calls True example_parse
           [Set_bio [BIO_Object 20], Set_network_bio_to_free_when_dealloc [BIO_Object 20],
            Set_bio [BIO_Object 21]]
           (example_conn\<lparr>networkBio_Object := None\<rparr>, example_world) of
      (self', w') \<Rightarrow>
        released w' = [BIO_free_all 10, BIO_free_all 11] \<and>
        (case nassl_SSL_dealloc self' w' of
           Inl e \<Rightarrow> False
         | Inr w'' \<Rightarrow>
             released w'' =
               [BIO_free_all 10, BIO_free_all 11, BIO_vfree 11, Py_DECREF_BIO 20,
                SSL_free (Some 12) (Some 12), Py_DECREF_CTX 30, Tp_free] \<and>
             times_freed 11 (released w'') = 2))"
  by (simp add: run_calls_def nassl_SSL_set_bio_def SSL_set_bio_def BIO_free_all_engine_def
        nassl_SSL_set_network_bio_to_free_when_dealloc_def
        Py_INCREF_BIO_def nassl_SSL_dealloc_def dealloc_network_bio_def
        Py_DECREF_BIO_Object_def Py_DECREF_CTX_Object_def BIO_vfree_engine_def
        SSL_free_engine_def X509_free_def Let_def
        example_conn_def example_world_def example_ssl_def)


end
